theory Spec2Isabelle
  imports Complex_Main
begin

section \<open>JavaScript numbers\<close>

text \<open>
  A JavaScript \<^verbatim>\<open>number\<close> is an IEEE 754 binary64 value. \<open>Num x\<close> is the finite double
  whose value is the real \<open>x\<close>; \<open>NaN\<close> is not-a-number. Two simplifications are made, and
  neither is observable in this program. The two zeros are one value: the program
  never divides by zero and passes no negative zero to \<^verbatim>\<open>Math.atan2\<close>. An overflow to
  an infinity is recorded as \<open>NaN\<close>: an infinite intermediate value can only arise inside
  \<^verbatim>\<open>calculateDistance\<close>, where it reaches \<^verbatim>\<open>Math.sin\<close> or \<^verbatim>\<open>Math.cos\<close> and becomes NaN
  there.
\<close>

datatype number = NaN | Num real

definition pow2 :: "int \<Rightarrow> real" where
  "pow2 k = (if 0 \<le> k then 2 ^ nat k else 1 / 2 ^ nat (- k))"

text \<open>Rounding to the nearest integer, a tie to the even one.\<close>

definition rne :: "real \<Rightarrow> int" where
  "rne x =
     (let f = \<lfloor>x\<rfloor>; d = x - real_of_int f
      in if d < 1 / 2 then f
         else if 1 / 2 < d then f + 1
         else if even f then f else f + 1)"

text \<open>
  The exponent of the unit in the last place of the doubles around \<open>x\<close>: 52 below the
  binary exponent of \<open>x\<close>, and never below that of the subnormal numbers.
\<close>

definition ulp_exp :: "real \<Rightarrow> int" where
  "ulp_exp x = max \<lfloor>log 2 \<bar>x\<bar>\<rfloor> (- 1022) - 52"

text \<open>
  \<open>fl x\<close> is the double that an arithmetic operation with the exact result \<open>x\<close>
  returns, and the double that a decimal literal \<open>x\<close> denotes: \<open>x\<close> rounded to the
  nearest multiple of its unit in the last place, ties to even.
\<close>

definition fl :: "real \<Rightarrow> number" where
  "fl x =
     (if x = 0 then Num 0
      else let u = pow2 (ulp_exp x);
               y = real_of_int (rne (x / u)) * u
           in if pow2 1024 \<le> \<bar>y\<bar> then NaN else Num y)"

text \<open>The operators \<^verbatim>\<open>+\<close>, \<^verbatim>\<open>-\<close>, \<^verbatim>\<open>*\<close>, \<^verbatim>\<open>/\<close>, \<^verbatim>\<open><\<close> and \<^verbatim>\<open>==\<close> on numbers.\<close>

fun num_add :: "number \<Rightarrow> number \<Rightarrow> number" where
  "num_add (Num x) (Num y) = fl (x + y)"
| "num_add _ _ = NaN"

fun num_sub :: "number \<Rightarrow> number \<Rightarrow> number" where
  "num_sub (Num x) (Num y) = fl (x - y)"
| "num_sub _ _ = NaN"

fun num_mul :: "number \<Rightarrow> number \<Rightarrow> number" where
  "num_mul (Num x) (Num y) = fl (x * y)"
| "num_mul _ _ = NaN"

fun num_div :: "number \<Rightarrow> number \<Rightarrow> number" where
  "num_div (Num x) (Num y) = (if y = 0 then NaN else fl (x / y))"
| "num_div _ _ = NaN"

fun num_less :: "number \<Rightarrow> number \<Rightarrow> bool" where
  "num_less (Num x) (Num y) = (x < y)"
| "num_less _ _ = False"

fun num_eq :: "number \<Rightarrow> number \<Rightarrow> bool" where
  "num_eq (Num x) (Num y) = (x = y)"
| "num_eq _ _ = False"

section \<open>Runtime functions used by the code\<close>

text \<open>
  The language leaves the results of \<^verbatim>\<open>Math.sin\<close>, \<^verbatim>\<open>Math.cos\<close> and \<^verbatim>\<open>Math.atan2\<close> on
  finite arguments to the implementation. They are a parameter: a \<open>MathLib\<close> gives the
  double each of them returns on finite doubles.
\<close>

record MathLib =
  msin :: "real \<Rightarrow> real"
  mcos :: "real \<Rightarrow> real"
  matan2 :: "real \<Rightarrow> real \<Rightarrow> real"

fun Math_sin :: "MathLib \<Rightarrow> number \<Rightarrow> number" where
  "Math_sin L (Num x) = Num (msin L x)"
| "Math_sin L NaN = NaN"

fun Math_cos :: "MathLib \<Rightarrow> number \<Rightarrow> number" where
  "Math_cos L (Num x) = Num (mcos L x)"
| "Math_cos L NaN = NaN"

fun Math_atan2 :: "MathLib \<Rightarrow> number \<Rightarrow> number \<Rightarrow> number" where
  "Math_atan2 L (Num y) (Num x) = Num (matan2 L y x)"
| "Math_atan2 L _ _ = NaN"

text \<open>\<^verbatim>\<open>Math.sqrt\<close> is correctly rounded, and NaN below zero.\<close>

fun Math_sqrt :: "number \<Rightarrow> number" where
  "Math_sqrt (Num x) = (if x < 0 then NaN else fl (sqrt x))"
| "Math_sqrt NaN = NaN"

fun Math_floor :: "number \<Rightarrow> number" where
  "Math_floor (Num x) = Num (real_of_int \<lfloor>x\<rfloor>)"
| "Math_floor NaN = NaN"

text \<open>\<^verbatim>\<open>Math.round\<close> rounds to the nearest integer, a half upwards.\<close>

fun Math_round :: "number \<Rightarrow> number" where
  "Math_round (Num x) = Num (real_of_int \<lfloor>x + 1 / 2\<rfloor>)"
| "Math_round NaN = NaN"

text \<open>\<^verbatim>\<open>Math.PI\<close>, the double nearest to \<open>\<pi>\<close>.\<close>

definition Math_PI :: number where
  "Math_PI = Num (884279719003555 / 281474976710656)"

text \<open>
  \<^verbatim>\<open>Array.prototype.reduce\<close> without an initial value: the first element seeds the
  accumulator, the callback runs on the remaining elements from left to right, and an
  empty array raises.
\<close>

datatype error = TypeError string | EmptyIndex | EmptyCatalog | InvalidKind

definition Array_reduce :: "('a \<Rightarrow> 'a \<Rightarrow> 'a) \<Rightarrow> 'a list \<Rightarrow> error + 'a" where
  "Array_reduce f xs =
     (case xs of
        [] \<Rightarrow> Inl (TypeError ''Reduce of empty array with no initial value'')
      | x # rest \<Rightarrow> Inr (foldl f x rest))"

text \<open>
  Reading \<^verbatim>\<open>xs[i]\<close>: for an index that is not an integer within the array the value is
  \<^verbatim>\<open>undefined\<close>, here \<open>None\<close>.
\<close>

fun Array_get :: "'a list \<Rightarrow> number \<Rightarrow> 'a option" where
  "Array_get xs (Num i) =
     (if real_of_int \<lfloor>i\<rfloor> = i \<and> 0 \<le> i \<and> i < real (length xs)
      then Some (xs ! nat \<lfloor>i\<rfloor>) else None)"
| "Array_get xs NaN = None"

text \<open>
  A library that returns the correctly rounded value of each function, as one instance;
  \<open>atan2_real\<close> is the angle of the point \<open>(x, y)\<close> in \<open>(-\<pi>, \<pi>]\<close>, and \<open>0\<close> at the
  origin.
\<close>

definition atan2_real :: "real \<Rightarrow> real \<Rightarrow> real" where
  "atan2_real y x =
     (if 0 < x then arctan (y / x)
      else if x < 0 then (if 0 \<le> y then arctan (y / x) + pi else arctan (y / x) - pi)
      else if 0 < y then pi / 2
      else if y < 0 then - (pi / 2)
      else 0)"

definition nearest_double :: "real \<Rightarrow> real" where
  "nearest_double x = (case fl x of Num y \<Rightarrow> y | NaN \<Rightarrow> 0)"

definition libm_rounded :: MathLib where
  "libm_rounded =
     \<lparr>msin = (\<lambda>x. nearest_double (sin x)),
      mcos = (\<lambda>x. nearest_double (cos x)),
      matan2 = (\<lambda>y x. nearest_double (atan2_real y x))\<rparr>"

text \<open>A number that is NaN or not negative.\<close>

definition not_negative :: "number \<Rightarrow> bool" where
  "not_negative z = (case z of NaN \<Rightarrow> True | Num v \<Rightarrow> 0 \<le> v)"

section \<open>Data model\<close>

text \<open>
  The TypeScript interfaces become records; every field of type \<^verbatim>\<open>number\<close> holds a
  \<open>number\<close>. Millisecond time stamps are integers.
\<close>

record Route =
  route_id :: string
  route_short_name :: string
  route_long_name :: string
  route_color :: string

record Stop =
  stop_id :: string
  stop_name :: string
  stop_lat :: number
  stop_lon :: number

record Location =
  lat :: number
  lon :: number

text \<open>
  The failures the code has are the \<^verbatim>\<open>TypeError\<close>s the runtime raises itself; that
  constructor of \<open>error\<close> carries the runtime's message. \<open>EmptyIndex\<close>, \<open>EmptyCatalog\<close>
  and \<open>InvalidKind\<close> are the error values the specification names; they are declared so
  that results can be compared with them, and no function below produces one.

  The two stops and two routes the source lists in its mock data follow. A decimal
  literal denotes the double nearest to it.
\<close>

definition mock_stops :: "Stop list" where
  "mock_stops =
     [\<lparr>stop_id = ''3a7a'', stop_name = ''Kwa Rwahama'',
       stop_lat = fl (- 1.952559), stop_lon = fl 30.120783\<rparr>,
      \<lparr>stop_id = ''936d1650-82dc-4b35-8b4e-4a5608978387'', stop_name = ''Kagugu B'',
       stop_lat = fl (- 1.912372), stop_lon = fl 30.082796\<rparr>]"

definition mock_routes :: "Route list" where
  "mock_routes =
     [\<lparr>route_id = ''419'', route_short_name = ''419'',
       route_long_name = ''Nyabugogo-Cyumbati'', route_color = ''e92121''\<rparr>,
      \<lparr>route_id = ''101'', route_short_name = ''101'',
       route_long_name = ''Downtown-Remera'', route_color = ''B55C93''\<rparr>]"

section \<open>Distance and nearest stop\<close>

definition calculateDistance :: "MathLib \<Rightarrow> Location \<Rightarrow> Location \<Rightarrow> number" where
  "calculateDistance L loc1 loc2 =
     (let R = Num 6371;
          dLat = num_div (num_mul (num_sub (lat loc2) (lat loc1)) Math_PI) (Num 180);
          dLon = num_div (num_mul (num_sub (lon loc2) (lon loc1)) Math_PI) (Num 180);
          a = num_add
                (num_mul (Math_sin L (num_div dLat (Num 2))) (Math_sin L (num_div dLat (Num 2))))
                (num_mul
                  (num_mul
                    (num_mul (Math_cos L (num_div (num_mul (lat loc1) Math_PI) (Num 180)))
                             (Math_cos L (num_div (num_mul (lat loc2) Math_PI) (Num 180))))
                    (Math_sin L (num_div dLon (Num 2))))
                  (Math_sin L (num_div dLon (Num 2))));
          c = num_mul (Num 2) (Math_atan2 L (Math_sqrt a) (Math_sqrt (num_sub (Num 1) a)))
      in num_mul R c)"

text \<open>The stop collection is a module-level constant in the source; here it is a parameter.\<close>

definition findNearestStop :: "MathLib \<Rightarrow> Stop list \<Rightarrow> Location \<Rightarrow> error + Stop" where
  "findNearestStop L stops location =
     Array_reduce
       (\<lambda>nearest stop.
          let distance =
                calculateDistance L location \<lparr>lat = stop_lat stop, lon = stop_lon stop\<rparr>
          in if num_less distance
                  (calculateDistance L location
                     \<lparr>lat = stop_lat nearest, lon = stop_lon nearest\<rparr>)
             then stop else nearest)
       stops"

text \<open>The coordinate literal the code builds from a stop.\<close>

abbreviation positionOf :: "Stop \<Rightarrow> Location" where
  "positionOf s \<equiv> \<lparr>lat = stop_lat s, lon = stop_lon s\<rparr>"

section \<open>Route recommendation\<close>

text \<open>
  The interface types \<open>route\<close> as a \<open>Route\<close>; at run time the field holds whatever the
  array read returned, which is \<^verbatim>\<open>undefined\<close> when the route array is empty.
\<close>

record RouteRecommendation =
  route :: "Route option"
  startStop :: Stop
  endStop :: Stop
  estimatedDuration :: number

text \<open>
  The route and stop collections are parameters, and so is \<open>random\<close>, the double in
  \<open>[0, 1)\<close> that the one call of \<^verbatim>\<open>Math.random()\<close> returns.
\<close>

definition recommendRoute ::
    "MathLib \<Rightarrow> Route list \<Rightarrow> Stop list \<Rightarrow> real \<Rightarrow> Location \<Rightarrow> Location \<Rightarrow>
     error + RouteRecommendation" where
  "recommendRoute L routes stops random start end' =
     (case findNearestStop L stops start of
        Inl e \<Rightarrow> Inl e
      | Inr startStop' \<Rightarrow>
          (case findNearestStop L stops end' of
             Inl e \<Rightarrow> Inl e
           | Inr endStop' \<Rightarrow>
               (let recommendedRoute =
                      Array_get routes
                        (Math_floor (num_mul (Num random) (Num (real (length routes)))));
                    estimatedDuration' =
                      Math_round
                        (num_mul (num_div (calculateDistance L start end') (Num 30)) (Num 60))
                in Inr \<lparr>route = recommendedRoute, startStop = startStop',
                         endStop = endStop', estimatedDuration = estimatedDuration'\<rparr>)))"

section \<open>Simulated bus locations\<close>

text \<open>
  \<open>busLocations\<close> is the module-level object: its own properties are a map from route
  id to position. Reading \<^verbatim>\<open>busLocations[id]\<close> for an id without an own property finds
  the property of that name inherited from \<^verbatim>\<open>Object.prototype\<close>, if there is one; each
  of those is a function or an object.
\<close>

definition Object_prototype_keys :: "string list" where
  "Object_prototype_keys =
     [''constructor'', ''__defineGetter__'', ''__defineSetter__'', ''hasOwnProperty'',
      ''__lookupGetter__'', ''__lookupSetter__'', ''isPrototypeOf'',
      ''propertyIsEnumerable'', ''toString'', ''valueOf'', ''__proto__'',
      ''toLocaleString'']"

text \<open>
  The values that successive calls of \<^verbatim>\<open>Math.random()\<close> return are a sequence \<open>rnd\<close> of
  doubles; \<open>draws\<close> counts the calls made so far.
\<close>

record SimState =
  busLocations :: "string \<rightharpoonup> Location"
  draws :: nat

definition init_state :: "nat \<Rightarrow> SimState" where
  "init_state n = \<lparr>busLocations = Map.empty, draws = n\<rparr>"

text \<open>
  The body of the \<^verbatim>\<open>forEach\<close> callback in the \<^verbatim>\<open>/api/bus-locations\<close> handler, for one
  route id; the callback returns nothing. Reading a field of the \<^verbatim>\<open>undefined\<close> that an
  empty stop array yields raises, after the random number has been drawn. For an id that
  names an inherited property the test \<^verbatim>\<open>!busLocations[id]\<close> is false from the start:
  the two additions are made on the inherited object, which is not part of the state
  here, and \<open>busLocations\<close> gets no property.
\<close>

definition poll :: "(nat \<Rightarrow> real) \<Rightarrow> Stop list \<Rightarrow> string \<Rightarrow> SimState \<Rightarrow> (error + unit) \<times> SimState" where
  "poll rnd stops rid st =
     (if busLocations st rid = None \<and> rid \<notin> set Object_prototype_keys then
        (let r = Num (rnd (draws st));
             st1 = st\<lparr>draws := Suc (draws st)\<rparr>
         in case Array_get stops (Math_floor (num_mul r (Num (real (length stops))))) of
              None \<Rightarrow> (Inl (TypeError ''Cannot read properties of undefined''), st1)
            | Some randomStop \<Rightarrow>
                (Inr (),
                 st1\<lparr>busLocations := (busLocations st1)
                       (rid \<mapsto> \<lparr>lat = stop_lat randomStop, lon = stop_lon randomStop\<rparr>)\<rparr>))
      else
        (case busLocations st rid of
           Some cur \<Rightarrow>
             (let lat' = num_add (lat cur)
                           (num_mul (num_sub (Num (rnd (draws st))) (Num (1 / 2))) (fl 0.001));
                  lon' = num_add (lon cur)
                           (num_mul (num_sub (Num (rnd (Suc (draws st)))) (Num (1 / 2))) (fl 0.001))
              in (Inr (),
                  st\<lparr>busLocations := (busLocations st)(rid \<mapsto> \<lparr>lat = lat', lon = lon'\<rparr>),
                     draws := Suc (Suc (draws st))\<rparr>))
         | None \<Rightarrow> (Inr (), st\<lparr>draws := Suc (Suc (draws st))\<rparr>)))"

text \<open>The step \<^verbatim>\<open>(Math.random() - 0.5) * 0.001\<close> for the draw \<open>r\<close>.\<close>

abbreviation jitter :: "real \<Rightarrow> number" where
  "jitter r \<equiv> num_mul (num_sub (Num r) (Num (1 / 2))) (fl 0.001)"

text \<open>\<^verbatim>\<open>routes.forEach\<close>: the routes in order; an exception ends the loop.\<close>

fun forEach_poll ::
    "(nat \<Rightarrow> real) \<Rightarrow> Stop list \<Rightarrow> Route list \<Rightarrow> SimState \<Rightarrow> (error + unit) \<times> SimState" where
  "forEach_poll rnd stops [] st = (Inr (), st)"
| "forEach_poll rnd stops (r # rs) st =
     (case poll rnd stops (route_id r) st of
        (Inl e, st') \<Rightarrow> (Inl e, st')
      | (Inr u, st') \<Rightarrow> forEach_poll rnd stops rs st')"

text \<open>
  The \<^verbatim>\<open>/api/bus-locations\<close> handler: poll every route, then answer with the own
  properties of \<open>busLocations\<close>.
\<close>

definition pollAll ::
    "(nat \<Rightarrow> real) \<Rightarrow> Route list \<Rightarrow> Stop list \<Rightarrow> SimState \<Rightarrow>
     (error + (string \<rightharpoonup> Location)) \<times> SimState" where
  "pollAll rnd routes stops st =
     (case forEach_poll rnd stops routes st of
        (Inl e, st') \<Rightarrow> (Inl e, st')
      | (Inr u, st') \<Rightarrow> (Inr (busLocations st'), st'))"

text \<open>The state of the process after \<open>k\<close> requests to the handler, failed ones included.\<close>

fun after_polls :: "(nat \<Rightarrow> real) \<Rightarrow> Route list \<Rightarrow> Stop list \<Rightarrow> nat \<Rightarrow> nat \<Rightarrow> SimState" where
  "after_polls rnd routes stops n0 0 = init_state n0"
| "after_polls rnd routes stops n0 (Suc k) =
     snd (pollAll rnd routes stops (after_polls rnd routes stops n0 k))"

text \<open>
  The two states the specification gives a route: a route is \<open>Tracking\<close> exactly when it
  has a position in \<open>busLocations\<close>.
\<close>

datatype TrackState = Uninitialized | Tracking

definition routeState :: "SimState \<Rightarrow> string \<Rightarrow> TrackState" where
  "routeState st rid = (case busLocations st rid of None \<Rightarrow> Uninitialized | Some p \<Rightarrow> Tracking)"

section \<open>Incident reports\<close>

text \<open>
  The field \<open>type\<close> is declared as one of three string literals; it is a string here.
\<close>

record Report =
  id_rep :: string
  type_rep :: string
  location_rep :: Location
  description :: string
  timestamp :: int

text \<open>
  The \<^verbatim>\<open>/api/reports\<close> handler filters with a callback that calls \<^verbatim>\<open>Date.now()\<close>
  once for each stored report: \<open>clock k\<close> is the value the \<open>k\<close>-th call returns.
\<close>

fun filter_recent :: "(nat \<Rightarrow> int) \<Rightarrow> nat \<Rightarrow> Report list \<Rightarrow> Report list" where
  "filter_recent clock k [] = []"
| "filter_recent clock k (report # rest) =
     (if clock k - timestamp report < 3600000
      then report # filter_recent clock (Suc k) rest
      else filter_recent clock (Suc k) rest)"

text \<open>The handler answers with the filtered array; the second component is the store afterwards.\<close>

definition recentReports :: "(nat \<Rightarrow> int) \<Rightarrow> Report list \<Rightarrow> Report list \<times> Report list" where
  "recentReports clock reports = (filter_recent clock 0 reports, reports)"

text \<open>
  The doubles that the sine and cosine of fdlibm, the library that V8 ports, return at
  the arguments that occur for the inputs examined below; the GNU C library returns the
  same doubles there. At every other argument \<open>libm_observed\<close> is \<open>libm_rounded\<close>.
\<close>

definition libm_observed :: MathLib where
  "libm_observed =
     \<lparr>msin = (\<lambda>x. if x = 6877731147805427 / 4503599627370496 then 8998626396882423 / 9007199254740992
           else if x = 884279719003555 / 562949953421312 then 1
           else if x = - (6877731147805427 / 4503599627370496) then - (8998626396882423 / 9007199254740992)
           else if x = - (884279719003555 / 562949953421312) then - 1
           else if x = - (4911241341341227 / 144115188075855872) then - (4910290785020707 / 144115188075855872)
           else if x = 7074237789757707 / 4503599627370496 then 1
           else if x = - (4860700471556201 / 144115188075855872) then - (4859778959289613 / 144115188075855872)
           else if x = 7072744850482785 / 4503599627370496 then 562949922491123 / 562949953421312
           else msin libm_rounded x),
      mcos = (\<lambda>x. if x = - (6877731147805427 / 4503599627370496) then 3143108106954521 / 72057594037927936
           else if x = 6877731147805427 / 4503599627370496 then 3143108106954521 / 72057594037927936
           else if x = 4911241228153423 / 144115188075855872 then 4500984753325079 / 4503599627370496
           else if x = - (2455620727264515 / 72057594037927936) then 9001969506168091 / 9007199254740992
           else if x = - (1202539928739745 / 36028797018963968) then 9002182545351823 / 9007199254740992
           else mcos libm_rounded x),
      matan2 = matan2 libm_rounded\<rparr>"

section \<open>Properties of the rounding\<close>

lemma pow2_powr: "pow2 k = 2 powr real_of_int k"
  by (simp add: pow2_def powr_int)

lemma pow2_pos: "0 < pow2 k"
  by (simp add: pow2_powr)

lemma pow2_add: "pow2 (j + k) = pow2 j * pow2 k"
  by (simp add: pow2_powr powr_add)

lemma rne_close: "\<bar>real_of_int (rne x) - x\<bar> \<le> 1 / 2"
  unfolding rne_def Let_def by (auto split: if_splits)

lemma rne_nonneg: "0 \<le> x \<Longrightarrow> 0 \<le> rne x"
  unfolding rne_def Let_def by (auto split: if_splits)

lemma floor_log2_eq:
  assumes "pow2 e \<le> \<bar>x\<bar>" "\<bar>x\<bar> < pow2 (e + 1)"
  shows "\<lfloor>log 2 \<bar>x\<bar>\<rfloor> = e"
proof -
  have "0 < \<bar>x\<bar>" using assms(1) pow2_pos [of e] by linarith
  then show ?thesis
    using assms by (simp add: floor_log_eq_powr_iff pow2_powr)
qed

text \<open>
  The value of \<open>fl\<close> at a given real, from its binary exponent \<open>e\<close> and the rounded
  multiple \<open>m\<close> of the unit in the last place.
\<close>

lemma fl_eval:
  assumes "pow2 e \<le> \<bar>x\<bar>" "\<bar>x\<bar> < pow2 (e + 1)"
      and "k = max e (- 1022) - 52"
      and "rne (x / pow2 k) = m"
      and "\<bar>real_of_int m * pow2 k\<bar> < pow2 1024"
  shows "fl x = Num (real_of_int m * pow2 k)"
proof -
  have nz: "x \<noteq> 0" using assms(1) pow2_pos [of e] by auto
  have "ulp_exp x = k" using floor_log2_eq [OF assms(1,2)] assms(3) by (simp add: ulp_exp_def)
  then show ?thesis using nz assms(4,5) by (simp add: fl_def Let_def)
qed

text \<open>The unit in the last place is at most \<open>2\<^sup>-\<^sup>5\<^sup>2\<close> times the number, or the subnormal unit.\<close>

lemma ulp_le:
  assumes "x \<noteq> 0"
  shows "pow2 (ulp_exp x) \<le> max (\<bar>x\<bar> * pow2 (- 52)) (pow2 (- 1074))"
proof (cases "- 1022 \<le> \<lfloor>log 2 \<bar>x\<bar>\<rfloor>")
  case True
  have "0 < \<bar>x\<bar>" using assms by simp
  then have "2 powr real_of_int \<lfloor>log 2 \<bar>x\<bar>\<rfloor> \<le> \<bar>x\<bar>"
    using floor_log_eq_powr_iff [of "\<bar>x\<bar>" 2 "\<lfloor>log 2 \<bar>x\<bar>\<rfloor>"] by simp
  then have "pow2 \<lfloor>log 2 \<bar>x\<bar>\<rfloor> \<le> \<bar>x\<bar>" by (simp only: pow2_powr)
  then have "pow2 \<lfloor>log 2 \<bar>x\<bar>\<rfloor> * pow2 (- 52) \<le> \<bar>x\<bar> * pow2 (- 52)"
    using pow2_pos [of "- 52"] by (simp only: mult_le_cancel_right_pos)
  moreover have "ulp_exp x = \<lfloor>log 2 \<bar>x\<bar>\<rfloor> + (- 52)" using True by (simp add: ulp_exp_def)
  ultimately have "pow2 (ulp_exp x) \<le> \<bar>x\<bar> * pow2 (- 52)" by (simp only: pow2_add)
  then show ?thesis by simp
next
  case False
  then have "ulp_exp x = - 1074" by (simp add: ulp_exp_def)
  then show ?thesis by simp
qed

text \<open>
  Below the overflow threshold \<open>fl\<close> returns a number, within half a unit in the last
  place of the exact value.
\<close>

lemma fl_Num:
  assumes "\<bar>x\<bar> \<le> pow2 1023"
  shows "\<exists>y. fl x = Num y \<and> \<bar>y - x\<bar> \<le> max (\<bar>x\<bar> * pow2 (- 53)) (pow2 (- 1075))"
proof (cases "x = 0")
  case True
  then show ?thesis using pow2_pos [of "- 1075"] by (simp add: fl_def)
next
  case False
  define u where "u = pow2 (ulp_exp x)"
  define y where "y = real_of_int (rne (x / u)) * u"
  have u0: "0 < u" by (simp add: u_def pow2_pos)
  have "\<bar>y - x\<bar> = \<bar>real_of_int (rne (x / u)) - x / u\<bar> * u"
  proof -
    have "y - x = (real_of_int (rne (x / u)) - x / u) * u"
      using u0 by (simp add: y_def field_simps)
    then show ?thesis using u0 by (simp add: abs_mult)
  qed
  also have "\<dots> \<le> (1 / 2) * u"
    using rne_close [of "x / u"] u0 by (intro mult_right_mono) simp_all
  finally have e1: "\<bar>y - x\<bar> \<le> u / 2" by simp
  have "u \<le> max (\<bar>x\<bar> * pow2 (- 52)) (pow2 (- 1074))"
    unfolding u_def by (rule ulp_le [OF False])
  moreover have "pow2 (- 52) / 2 = pow2 (- 53)" "pow2 (- 1074) / 2 = pow2 (- 1075)"
    by (simp_all add: pow2_def)
  ultimately have "u / 2 \<le> max (\<bar>x\<bar> * pow2 (- 53)) (pow2 (- 1075))"
    by (auto simp: max_def split: if_splits)
  with e1 have e2: "\<bar>y - x\<bar> \<le> max (\<bar>x\<bar> * pow2 (- 53)) (pow2 (- 1075))" by linarith
  have c: "pow2 (- 53) \<le> 1 / 2" "pow2 (- 1075) < 1" "2 * pow2 1023 = pow2 1024" "1 \<le> pow2 1023"
    by (simp_all add: pow2_def)
  have "\<bar>x\<bar> * pow2 (- 53) \<le> pow2 1023 * (1 / 2)"
    using assms c(1) by (intro mult_mono) (simp_all add: pow2_pos less_imp_le)
  then have "max (\<bar>x\<bar> * pow2 (- 53)) (pow2 (- 1075)) < pow2 1023"
    using c(2,4) pow2_pos [of 1023] by (auto simp: max_def)
  with e2 assms have "\<bar>y\<bar> < pow2 1023 + pow2 1023" by linarith
  then have "\<bar>y\<bar> < pow2 1024" using c(3) by linarith
  then have "fl x = Num y" using False by (simp add: fl_def Let_def u_def y_def)
  with e2 show ?thesis by blast
qed

lemma fl_nonneg:
  assumes "0 \<le> x" "fl x = Num y"
  shows "0 \<le> y"
proof (cases "x = 0")
  case True
  then show ?thesis using assms(2) by (simp add: fl_def)
next
  case False
  have "0 \<le> x / pow2 (ulp_exp x)" using assms(1) pow2_pos [of "ulp_exp x"] by simp
  then have "0 \<le> rne (x / pow2 (ulp_exp x))" by (rule rne_nonneg)
  then have "0 \<le> real_of_int (rne (x / pow2 (ulp_exp x))) * pow2 (ulp_exp x)"
    using pow2_pos [of "ulp_exp x"] by simp
  then show ?thesis using assms(2) False by (simp add: fl_def Let_def split: if_splits)
qed

lemma fl_zero: "fl 0 = Num 0"
  by (simp add: fl_def)

lemma fl_one: "fl 1 = Num 1"
  by (rule fl_eval [where e = 0 and k = "- 52" and m = 4503599627370496, THEN trans])
     (simp_all add: pow2_def rne_def Let_def)

lemma num_mul_NaN_right: "num_mul x NaN = NaN"
  by (cases x) simp_all

lemma Math_atan2_NaN_right: "Math_atan2 L y NaN = NaN"
  by (cases y) simp_all

section \<open>The arithmetic at particular operands\<close>

text \<open>
  Each lemma gives the result of one operation of the program at operands that occur for
  the inputs examined below, from the binary exponent of the exact result and its
  rounded multiple of the unit in the last place.
\<close>

lemma anti_dlat0: "num_sub (Num (175 / 2)) (Num (- (175 / 2))) = Num 175"
proof -
  have "fl ((175 / 2) - (- (175 / 2))) = Num 175"
    by (rule fl_eval [where e = "7" and k = "- 45" and m = "6157265115545600", THEN trans])
       (simp_all add: pow2_def rne_def Let_def)
  then show ?thesis by simp
qed

lemma anti_dlat1: "num_mul (Num 175) (Num (884279719003555 / 281474976710656)) = Num (4835904713300691 / 8796093022208)"
proof -
  have "fl (175 * (884279719003555 / 281474976710656)) = Num (4835904713300691 / 8796093022208)"
    by (rule fl_eval [where e = "9" and k = "- 43" and m = "4835904713300691", THEN trans])
       (simp_all add: pow2_def rne_def Let_def)
  then show ?thesis by simp
qed

lemma anti_dLat: "num_div (Num (4835904713300691 / 8796093022208)) (Num 180) = Num (6877731147805427 / 2251799813685248)"
proof -
  have "fl ((4835904713300691 / 8796093022208) / 180) = Num (6877731147805427 / 2251799813685248)"
    by (rule fl_eval [where e = "1" and k = "- 51" and m = "6877731147805427", THEN trans])
       (simp_all add: pow2_def rne_def Let_def)
  then show ?thesis by simp
qed

lemma anti_dlon0: "num_sub (Num 0) (Num (- 180)) = Num 180"
proof -
  have "fl (0 - (- 180)) = Num 180"
    by (rule fl_eval [where e = "7" and k = "- 45" and m = "6333186975989760", THEN trans])
       (simp_all add: pow2_def rne_def Let_def)
  then show ?thesis by simp
qed

lemma anti_dlon1: "num_mul (Num 180) (Num (884279719003555 / 281474976710656)) = Num (4974073419394997 / 8796093022208)"
proof -
  have "fl (180 * (884279719003555 / 281474976710656)) = Num (4974073419394997 / 8796093022208)"
    by (rule fl_eval [where e = "9" and k = "- 43" and m = "4974073419394997", THEN trans])
       (simp_all add: pow2_def rne_def Let_def)
  then show ?thesis by simp
qed

lemma anti_dLon: "num_div (Num (4974073419394997 / 8796093022208)) (Num 180) = Num (884279719003555 / 281474976710656)"
proof -
  have "fl ((4974073419394997 / 8796093022208) / 180) = Num (884279719003555 / 281474976710656)"
    by (rule fl_eval [where e = "1" and k = "- 51" and m = "7074237752028440", THEN trans])
       (simp_all add: pow2_def rne_def Let_def)
  then show ?thesis by simp
qed

lemma anti_hLat: "num_div (Num (6877731147805427 / 2251799813685248)) (Num 2) = Num (6877731147805427 / 4503599627370496)"
proof -
  have "fl ((6877731147805427 / 2251799813685248) / 2) = Num (6877731147805427 / 4503599627370496)"
    by (rule fl_eval [where e = "0" and k = "- 52" and m = "6877731147805427", THEN trans])
       (simp_all add: pow2_def rne_def Let_def)
  then show ?thesis by simp
qed

lemma anti_s1s1: "num_mul (Num (8998626396882423 / 9007199254740992)) (Num (8998626396882423 / 9007199254740992)) = Num (4495030849242473 / 4503599627370496)"
proof -
  have "fl ((8998626396882423 / 9007199254740992) * (8998626396882423 / 9007199254740992)) = Num (4495030849242473 / 4503599627370496)"
    by (rule fl_eval [where e = "- 1" and k = "- 53" and m = "8990061698484946", THEN trans])
       (simp_all add: pow2_def rne_def Let_def)
  then show ?thesis by simp
qed

lemma anti_p1a: "num_mul (Num (- (175 / 2))) (Num (884279719003555 / 281474976710656)) = Num (- (4835904713300691 / 17592186044416))"
proof -
  have "fl ((- (175 / 2)) * (884279719003555 / 281474976710656)) = Num (- (4835904713300691 / 17592186044416))"
    by (rule fl_eval [where e = "8" and k = "- 44" and m = "- 4835904713300691", THEN trans])
       (simp_all add: pow2_def rne_def Let_def)
  then show ?thesis by simp
qed

lemma anti_p1: "num_div (Num (- (4835904713300691 / 17592186044416))) (Num 180) = Num (- (6877731147805427 / 4503599627370496))"
proof -
  have "fl ((- (4835904713300691 / 17592186044416)) / 180) = Num (- (6877731147805427 / 4503599627370496))"
    by (rule fl_eval [where e = "0" and k = "- 52" and m = "- 6877731147805427", THEN trans])
       (simp_all add: pow2_def rne_def Let_def)
  then show ?thesis by simp
qed

lemma anti_p2a: "num_mul (Num (175 / 2)) (Num (884279719003555 / 281474976710656)) = Num (4835904713300691 / 17592186044416)"
proof -
  have "fl ((175 / 2) * (884279719003555 / 281474976710656)) = Num (4835904713300691 / 17592186044416)"
    by (rule fl_eval [where e = "8" and k = "- 44" and m = "4835904713300691", THEN trans])
       (simp_all add: pow2_def rne_def Let_def)
  then show ?thesis by simp
qed

lemma anti_p2: "num_div (Num (4835904713300691 / 17592186044416)) (Num 180) = Num (6877731147805427 / 4503599627370496)"
proof -
  have "fl ((4835904713300691 / 17592186044416) / 180) = Num (6877731147805427 / 4503599627370496)"
    by (rule fl_eval [where e = "0" and k = "- 52" and m = "6877731147805427", THEN trans])
       (simp_all add: pow2_def rne_def Let_def)
  then show ?thesis by simp
qed

lemma anti_cc: "num_mul (Num (3143108106954521 / 72057594037927936)) (Num (3143108106954521 / 72057594037927936)) = Num (4387214401548093 / 2305843009213693952)"
proof -
  have "fl ((3143108106954521 / 72057594037927936) * (3143108106954521 / 72057594037927936)) = Num (4387214401548093 / 2305843009213693952)"
    by (rule fl_eval [where e = "- 10" and k = "- 62" and m = "8774428803096186", THEN trans])
       (simp_all add: pow2_def rne_def Let_def)
  then show ?thesis by simp
qed

lemma anti_hLon: "num_div (Num (884279719003555 / 281474976710656)) (Num 2) = Num (884279719003555 / 562949953421312)"
proof -
  have "fl ((884279719003555 / 281474976710656) / 2) = Num (884279719003555 / 562949953421312)"
    by (rule fl_eval [where e = "0" and k = "- 52" and m = "7074237752028440", THEN trans])
       (simp_all add: pow2_def rne_def Let_def)
  then show ?thesis by simp
qed

lemma anti_ccs: "num_mul (Num (4387214401548093 / 2305843009213693952)) (Num 1) = Num (4387214401548093 / 2305843009213693952)"
proof -
  have "fl ((4387214401548093 / 2305843009213693952) * 1) = Num (4387214401548093 / 2305843009213693952)"
    by (rule fl_eval [where e = "- 10" and k = "- 62" and m = "8774428803096186", THEN trans])
       (simp_all add: pow2_def rne_def Let_def)
  then show ?thesis by simp
qed

lemma anti_ccss: "num_mul (Num (4387214401548093 / 2305843009213693952)) (Num 1) = Num (4387214401548093 / 2305843009213693952)"
proof -
  have "fl ((4387214401548093 / 2305843009213693952) * 1) = Num (4387214401548093 / 2305843009213693952)"
    by (rule fl_eval [where e = "- 10" and k = "- 62" and m = "8774428803096186", THEN trans])
       (simp_all add: pow2_def rne_def Let_def)
  then show ?thesis by simp
qed

lemma anti_a: "num_add (Num (4495030849242473 / 4503599627370496)) (Num (4387214401548093 / 2305843009213693952)) = Num (4503599627370497 / 4503599627370496)"
proof -
  have "fl ((4495030849242473 / 4503599627370496) + (4387214401548093 / 2305843009213693952)) = Num (4503599627370497 / 4503599627370496)"
    by (rule fl_eval [where e = "0" and k = "- 52" and m = "4503599627370497", THEN trans])
       (simp_all add: pow2_def rne_def Let_def)
  then show ?thesis by simp
qed

lemma anti_oma: "num_sub (Num 1) (Num (4503599627370497 / 4503599627370496)) = Num (- (1 / 4503599627370496))"
proof -
  have "fl (1 - (4503599627370497 / 4503599627370496)) = Num (- (1 / 4503599627370496))"
    by (rule fl_eval [where e = "- 52" and k = "- 104" and m = "- 4503599627370496", THEN trans])
       (simp_all add: pow2_def rne_def Let_def)
  then show ?thesis by simp
qed

lemma rev_dlat0: "num_sub (Num (- (175 / 2))) (Num (175 / 2)) = Num (- 175)"
proof -
  have "fl ((- (175 / 2)) - (175 / 2)) = Num (- 175)"
    by (rule fl_eval [where e = "7" and k = "- 45" and m = "- 6157265115545600", THEN trans])
       (simp_all add: pow2_def rne_def Let_def)
  then show ?thesis by simp
qed

lemma rev_dlat1: "num_mul (Num (- 175)) (Num (884279719003555 / 281474976710656)) = Num (- (4835904713300691 / 8796093022208))"
proof -
  have "fl ((- 175) * (884279719003555 / 281474976710656)) = Num (- (4835904713300691 / 8796093022208))"
    by (rule fl_eval [where e = "9" and k = "- 43" and m = "- 4835904713300691", THEN trans])
       (simp_all add: pow2_def rne_def Let_def)
  then show ?thesis by simp
qed

lemma rev_dLat: "num_div (Num (- (4835904713300691 / 8796093022208))) (Num 180) = Num (- (6877731147805427 / 2251799813685248))"
proof -
  have "fl ((- (4835904713300691 / 8796093022208)) / 180) = Num (- (6877731147805427 / 2251799813685248))"
    by (rule fl_eval [where e = "1" and k = "- 51" and m = "- 6877731147805427", THEN trans])
       (simp_all add: pow2_def rne_def Let_def)
  then show ?thesis by simp
qed

lemma rev_dlon0: "num_sub (Num (- 180)) (Num 0) = Num (- 180)"
proof -
  have "fl ((- 180) - 0) = Num (- 180)"
    by (rule fl_eval [where e = "7" and k = "- 45" and m = "- 6333186975989760", THEN trans])
       (simp_all add: pow2_def rne_def Let_def)
  then show ?thesis by simp
qed

lemma rev_dlon1: "num_mul (Num (- 180)) (Num (884279719003555 / 281474976710656)) = Num (- (4974073419394997 / 8796093022208))"
proof -
  have "fl ((- 180) * (884279719003555 / 281474976710656)) = Num (- (4974073419394997 / 8796093022208))"
    by (rule fl_eval [where e = "9" and k = "- 43" and m = "- 4974073419394997", THEN trans])
       (simp_all add: pow2_def rne_def Let_def)
  then show ?thesis by simp
qed

lemma rev_dLon: "num_div (Num (- (4974073419394997 / 8796093022208))) (Num 180) = Num (- (884279719003555 / 281474976710656))"
proof -
  have "fl ((- (4974073419394997 / 8796093022208)) / 180) = Num (- (884279719003555 / 281474976710656))"
    by (rule fl_eval [where e = "1" and k = "- 51" and m = "- 7074237752028440", THEN trans])
       (simp_all add: pow2_def rne_def Let_def)
  then show ?thesis by simp
qed

lemma rev_hLat: "num_div (Num (- (6877731147805427 / 2251799813685248))) (Num 2) = Num (- (6877731147805427 / 4503599627370496))"
proof -
  have "fl ((- (6877731147805427 / 2251799813685248)) / 2) = Num (- (6877731147805427 / 4503599627370496))"
    by (rule fl_eval [where e = "0" and k = "- 52" and m = "- 6877731147805427", THEN trans])
       (simp_all add: pow2_def rne_def Let_def)
  then show ?thesis by simp
qed

lemma rev_s1s1: "num_mul (Num (- (8998626396882423 / 9007199254740992))) (Num (- (8998626396882423 / 9007199254740992))) = Num (4495030849242473 / 4503599627370496)"
proof -
  have "fl ((- (8998626396882423 / 9007199254740992)) * (- (8998626396882423 / 9007199254740992))) = Num (4495030849242473 / 4503599627370496)"
    by (rule fl_eval [where e = "- 1" and k = "- 53" and m = "8990061698484946", THEN trans])
       (simp_all add: pow2_def rne_def Let_def)
  then show ?thesis by simp
qed

lemma rev_p1a: "num_mul (Num (175 / 2)) (Num (884279719003555 / 281474976710656)) = Num (4835904713300691 / 17592186044416)"
proof -
  have "fl ((175 / 2) * (884279719003555 / 281474976710656)) = Num (4835904713300691 / 17592186044416)"
    by (rule fl_eval [where e = "8" and k = "- 44" and m = "4835904713300691", THEN trans])
       (simp_all add: pow2_def rne_def Let_def)
  then show ?thesis by simp
qed

lemma rev_p1: "num_div (Num (4835904713300691 / 17592186044416)) (Num 180) = Num (6877731147805427 / 4503599627370496)"
proof -
  have "fl ((4835904713300691 / 17592186044416) / 180) = Num (6877731147805427 / 4503599627370496)"
    by (rule fl_eval [where e = "0" and k = "- 52" and m = "6877731147805427", THEN trans])
       (simp_all add: pow2_def rne_def Let_def)
  then show ?thesis by simp
qed

lemma rev_p2a: "num_mul (Num (- (175 / 2))) (Num (884279719003555 / 281474976710656)) = Num (- (4835904713300691 / 17592186044416))"
proof -
  have "fl ((- (175 / 2)) * (884279719003555 / 281474976710656)) = Num (- (4835904713300691 / 17592186044416))"
    by (rule fl_eval [where e = "8" and k = "- 44" and m = "- 4835904713300691", THEN trans])
       (simp_all add: pow2_def rne_def Let_def)
  then show ?thesis by simp
qed

lemma rev_p2: "num_div (Num (- (4835904713300691 / 17592186044416))) (Num 180) = Num (- (6877731147805427 / 4503599627370496))"
proof -
  have "fl ((- (4835904713300691 / 17592186044416)) / 180) = Num (- (6877731147805427 / 4503599627370496))"
    by (rule fl_eval [where e = "0" and k = "- 52" and m = "- 6877731147805427", THEN trans])
       (simp_all add: pow2_def rne_def Let_def)
  then show ?thesis by simp
qed

lemma rev_cc: "num_mul (Num (3143108106954521 / 72057594037927936)) (Num (3143108106954521 / 72057594037927936)) = Num (4387214401548093 / 2305843009213693952)"
proof -
  have "fl ((3143108106954521 / 72057594037927936) * (3143108106954521 / 72057594037927936)) = Num (4387214401548093 / 2305843009213693952)"
    by (rule fl_eval [where e = "- 10" and k = "- 62" and m = "8774428803096186", THEN trans])
       (simp_all add: pow2_def rne_def Let_def)
  then show ?thesis by simp
qed

lemma rev_hLon: "num_div (Num (- (884279719003555 / 281474976710656))) (Num 2) = Num (- (884279719003555 / 562949953421312))"
proof -
  have "fl ((- (884279719003555 / 281474976710656)) / 2) = Num (- (884279719003555 / 562949953421312))"
    by (rule fl_eval [where e = "0" and k = "- 52" and m = "- 7074237752028440", THEN trans])
       (simp_all add: pow2_def rne_def Let_def)
  then show ?thesis by simp
qed

lemma rev_ccs: "num_mul (Num (4387214401548093 / 2305843009213693952)) (Num (- 1)) = Num (- (4387214401548093 / 2305843009213693952))"
proof -
  have "fl ((4387214401548093 / 2305843009213693952) * (- 1)) = Num (- (4387214401548093 / 2305843009213693952))"
    by (rule fl_eval [where e = "- 10" and k = "- 62" and m = "- 8774428803096186", THEN trans])
       (simp_all add: pow2_def rne_def Let_def)
  then show ?thesis by simp
qed

lemma rev_ccss: "num_mul (Num (- (4387214401548093 / 2305843009213693952))) (Num (- 1)) = Num (4387214401548093 / 2305843009213693952)"
proof -
  have "fl ((- (4387214401548093 / 2305843009213693952)) * (- 1)) = Num (4387214401548093 / 2305843009213693952)"
    by (rule fl_eval [where e = "- 10" and k = "- 62" and m = "8774428803096186", THEN trans])
       (simp_all add: pow2_def rne_def Let_def)
  then show ?thesis by simp
qed

lemma rev_a: "num_add (Num (4495030849242473 / 4503599627370496)) (Num (4387214401548093 / 2305843009213693952)) = Num (4503599627370497 / 4503599627370496)"
proof -
  have "fl ((4495030849242473 / 4503599627370496) + (4387214401548093 / 2305843009213693952)) = Num (4503599627370497 / 4503599627370496)"
    by (rule fl_eval [where e = "0" and k = "- 52" and m = "4503599627370497", THEN trans])
       (simp_all add: pow2_def rne_def Let_def)
  then show ?thesis by simp
qed

lemma rev_oma: "num_sub (Num 1) (Num (4503599627370497 / 4503599627370496)) = Num (- (1 / 4503599627370496))"
proof -
  have "fl (1 - (4503599627370497 / 4503599627370496)) = Num (- (1 / 4503599627370496))"
    by (rule fl_eval [where e = "- 52" and k = "- 104" and m = "- 4503599627370496", THEN trans])
       (simp_all add: pow2_def rne_def Let_def)
  then show ?thesis by simp
qed

lemma lit_query_lat: "fl 1.95255891 = Num (4396771789747471 / 2251799813685248)"
  by (rule fl_eval [where e = "0" and k = "- 52" and m = "8793543579494942", THEN trans])
     (simp_all add: pow2_def rne_def Let_def)

lemma lit_query_lon: "fl (- 149.87921796) = Num (- (329587885817987 / 2199023255552))"
  by (rule fl_eval [where e = "7" and k = "- 45" and m = "- 5273406173087792", THEN trans])
     (simp_all add: pow2_def rne_def Let_def)

lemma lit_stop_lat: "fl (- 1.952559) = Num (- (2198385996204727 / 1125899906842624))"
  by (rule fl_eval [where e = "0" and k = "- 52" and m = "- 8793543984818908", THEN trans])
     (simp_all add: pow2_def rne_def Let_def)

lemma lit_stop_lon: "fl 30.120783 = Num (8478246693431723 / 281474976710656)"
  by (rule fl_eval [where e = "4" and k = "- 48" and m = "8478246693431723", THEN trans])
     (simp_all add: pow2_def rne_def Let_def)

lemma near_dlat0: "num_sub (Num (- (2198385996204727 / 1125899906842624))) (Num (4396771789747471 / 2251799813685248)) = Num (- (8793543782156925 / 2251799813685248))"
proof -
  have "fl ((- (2198385996204727 / 1125899906842624)) - (4396771789747471 / 2251799813685248)) = Num (- (8793543782156925 / 2251799813685248))"
    by (rule fl_eval [where e = "1" and k = "- 51" and m = "- 8793543782156925", THEN trans])
       (simp_all add: pow2_def rne_def Let_def)
  then show ?thesis by simp
qed

lemma near_dlat1: "num_mul (Num (- (8793543782156925 / 2251799813685248))) (Num (884279719003555 / 281474976710656)) = Num (- (1726608284065275 / 140737488355328))"
proof -
  have "fl ((- (8793543782156925 / 2251799813685248)) * (884279719003555 / 281474976710656)) = Num (- (1726608284065275 / 140737488355328))"
    by (rule fl_eval [where e = "3" and k = "- 49" and m = "- 6906433136261100", THEN trans])
       (simp_all add: pow2_def rne_def Let_def)
  then show ?thesis by simp
qed

lemma near_dLat: "num_div (Num (- (1726608284065275 / 140737488355328))) (Num 180) = Num (- (4911241341341227 / 72057594037927936))"
proof -
  have "fl ((- (1726608284065275 / 140737488355328)) / 180) = Num (- (4911241341341227 / 72057594037927936))"
    by (rule fl_eval [where e = "- 4" and k = "- 56" and m = "- 4911241341341227", THEN trans])
       (simp_all add: pow2_def rne_def Let_def)
  then show ?thesis by simp
qed

lemma near_dlon0: "num_sub (Num (8478246693431723 / 281474976710656)) (Num (- (329587885817987 / 2199023255552))) = Num (6333187009766757 / 35184372088832)"
proof -
  have "fl ((8478246693431723 / 281474976710656) - (- (329587885817987 / 2199023255552))) = Num (6333187009766757 / 35184372088832)"
    by (rule fl_eval [where e = "7" and k = "- 45" and m = "6333187009766757", THEN trans])
       (simp_all add: pow2_def rne_def Let_def)
  then show ?thesis by simp
qed

lemma near_dlon1: "num_mul (Num (6333187009766757 / 35184372088832)) (Num (884279719003555 / 281474976710656)) = Num (1243518361480847 / 2199023255552)"
proof -
  have "fl ((6333187009766757 / 35184372088832) * (884279719003555 / 281474976710656)) = Num (1243518361480847 / 2199023255552)"
    by (rule fl_eval [where e = "9" and k = "- 43" and m = "4974073445923388", THEN trans])
       (simp_all add: pow2_def rne_def Let_def)
  then show ?thesis by simp
qed

lemma near_dLon: "num_div (Num (1243518361480847 / 2199023255552)) (Num 180) = Num (7074237789757707 / 2251799813685248)"
proof -
  have "fl ((1243518361480847 / 2199023255552) / 180) = Num (7074237789757707 / 2251799813685248)"
    by (rule fl_eval [where e = "1" and k = "- 51" and m = "7074237789757707", THEN trans])
       (simp_all add: pow2_def rne_def Let_def)
  then show ?thesis by simp
qed

lemma near_hLat: "num_div (Num (- (4911241341341227 / 72057594037927936))) (Num 2) = Num (- (4911241341341227 / 144115188075855872))"
proof -
  have "fl ((- (4911241341341227 / 72057594037927936)) / 2) = Num (- (4911241341341227 / 144115188075855872))"
    by (rule fl_eval [where e = "- 5" and k = "- 57" and m = "- 4911241341341227", THEN trans])
       (simp_all add: pow2_def rne_def Let_def)
  then show ?thesis by simp
qed

lemma near_s1s1: "num_mul (Num (- (4910290785020707 / 144115188075855872))) (Num (- (4910290785020707 / 144115188075855872))) = Num (2676853804557319 / 2305843009213693952)"
proof -
  have "fl ((- (4910290785020707 / 144115188075855872)) * (- (4910290785020707 / 144115188075855872))) = Num (2676853804557319 / 2305843009213693952)"
    by (rule fl_eval [where e = "- 10" and k = "- 62" and m = "5353707609114638", THEN trans])
       (simp_all add: pow2_def rne_def Let_def)
  then show ?thesis by simp
qed

lemma near_p1a: "num_mul (Num (4396771789747471 / 2251799813685248)) (Num (884279719003555 / 281474976710656)) = Num (6906432977090751 / 1125899906842624)"
proof -
  have "fl ((4396771789747471 / 2251799813685248) * (884279719003555 / 281474976710656)) = Num (6906432977090751 / 1125899906842624)"
    by (rule fl_eval [where e = "2" and k = "- 50" and m = "6906432977090751", THEN trans])
       (simp_all add: pow2_def rne_def Let_def)
  then show ?thesis by simp
qed

lemma near_p1: "num_div (Num (6906432977090751 / 1125899906842624)) (Num 180) = Num (4911241228153423 / 144115188075855872)"
proof -
  have "fl ((6906432977090751 / 1125899906842624) / 180) = Num (4911241228153423 / 144115188075855872)"
    by (rule fl_eval [where e = "- 5" and k = "- 57" and m = "4911241228153423", THEN trans])
       (simp_all add: pow2_def rne_def Let_def)
  then show ?thesis by simp
qed

lemma near_p2a: "num_mul (Num (- (2198385996204727 / 1125899906842624))) (Num (884279719003555 / 281474976710656)) = Num (- (6906433295431449 / 1125899906842624))"
proof -
  have "fl ((- (2198385996204727 / 1125899906842624)) * (884279719003555 / 281474976710656)) = Num (- (6906433295431449 / 1125899906842624))"
    by (rule fl_eval [where e = "2" and k = "- 50" and m = "- 6906433295431449", THEN trans])
       (simp_all add: pow2_def rne_def Let_def)
  then show ?thesis by simp
qed

lemma near_p2: "num_div (Num (- (6906433295431449 / 1125899906842624))) (Num 180) = Num (- (2455620727264515 / 72057594037927936))"
proof -
  have "fl ((- (6906433295431449 / 1125899906842624)) / 180) = Num (- (2455620727264515 / 72057594037927936))"
    by (rule fl_eval [where e = "- 5" and k = "- 57" and m = "- 4911241454529030", THEN trans])
       (simp_all add: pow2_def rne_def Let_def)
  then show ?thesis by simp
qed

lemma near_cc: "num_mul (Num (4500984753325079 / 4503599627370496)) (Num (9001969506168091 / 9007199254740992)) = Num (8996742794566941 / 9007199254740992)"
proof -
  have "fl ((4500984753325079 / 4503599627370496) * (9001969506168091 / 9007199254740992)) = Num (8996742794566941 / 9007199254740992)"
    by (rule fl_eval [where e = "- 1" and k = "- 53" and m = "8996742794566941", THEN trans])
       (simp_all add: pow2_def rne_def Let_def)
  then show ?thesis by simp
qed

lemma near_hLon: "num_div (Num (7074237789757707 / 2251799813685248)) (Num 2) = Num (7074237789757707 / 4503599627370496)"
proof -
  have "fl ((7074237789757707 / 2251799813685248) / 2) = Num (7074237789757707 / 4503599627370496)"
    by (rule fl_eval [where e = "0" and k = "- 52" and m = "7074237789757707", THEN trans])
       (simp_all add: pow2_def rne_def Let_def)
  then show ?thesis by simp
qed

lemma near_ccs: "num_mul (Num (8996742794566941 / 9007199254740992)) (Num 1) = Num (8996742794566941 / 9007199254740992)"
proof -
  have "fl ((8996742794566941 / 9007199254740992) * 1) = Num (8996742794566941 / 9007199254740992)"
    by (rule fl_eval [where e = "- 1" and k = "- 53" and m = "8996742794566941", THEN trans])
       (simp_all add: pow2_def rne_def Let_def)
  then show ?thesis by simp
qed

lemma near_ccss: "num_mul (Num (8996742794566941 / 9007199254740992)) (Num 1) = Num (8996742794566941 / 9007199254740992)"
proof -
  have "fl ((8996742794566941 / 9007199254740992) * 1) = Num (8996742794566941 / 9007199254740992)"
    by (rule fl_eval [where e = "- 1" and k = "- 53" and m = "8996742794566941", THEN trans])
       (simp_all add: pow2_def rne_def Let_def)
  then show ?thesis by simp
qed

lemma near_a: "num_add (Num (2676853804557319 / 2305843009213693952)) (Num (8996742794566941 / 9007199254740992)) = Num (4503599627370497 / 4503599627370496)"
proof -
  have "fl ((2676853804557319 / 2305843009213693952) + (8996742794566941 / 9007199254740992)) = Num (4503599627370497 / 4503599627370496)"
    by (rule fl_eval [where e = "0" and k = "- 52" and m = "4503599627370497", THEN trans])
       (simp_all add: pow2_def rne_def Let_def)
  then show ?thesis by simp
qed

lemma near_oma: "num_sub (Num 1) (Num (4503599627370497 / 4503599627370496)) = Num (- (1 / 4503599627370496))"
proof -
  have "fl (1 - (4503599627370497 / 4503599627370496)) = Num (- (1 / 4503599627370496))"
    by (rule fl_eval [where e = "- 52" and k = "- 104" and m = "- 4503599627370496", THEN trans])
       (simp_all add: pow2_def rne_def Let_def)
  then show ?thesis by simp
qed

lemma lit_stop2_lat: "fl (- 1.912372) = Num (- (4306278913296885 / 2251799813685248))"
  by (rule fl_eval [where e = "0" and k = "- 52" and m = "- 8612557826593770", THEN trans])
     (simp_all add: pow2_def rne_def Let_def)

lemma lit_stop2_lon: "fl 30.082796 = Num (8467554303491415 / 281474976710656)"
  by (rule fl_eval [where e = "4" and k = "- 48" and m = "8467554303491415", THEN trans])
     (simp_all add: pow2_def rne_def Let_def)

lemma far_dlat0: "num_sub (Num (- (4306278913296885 / 2251799813685248))) (Num (4396771789747471 / 2251799813685248)) = Num (- (2175762675761089 / 562949953421312))"
proof -
  have "fl ((- (4306278913296885 / 2251799813685248)) - (4396771789747471 / 2251799813685248)) = Num (- (2175762675761089 / 562949953421312))"
    by (rule fl_eval [where e = "1" and k = "- 51" and m = "- 8703050703044356", THEN trans])
       (simp_all add: pow2_def rne_def Let_def)
  then show ?thesis by simp
qed

lemma far_dlat1: "num_mul (Num (- (2175762675761089 / 562949953421312))) (Num (884279719003555 / 281474976710656)) = Num (- (1708840009531477 / 140737488355328))"
proof -
  have "fl ((- (2175762675761089 / 562949953421312)) * (884279719003555 / 281474976710656)) = Num (- (1708840009531477 / 140737488355328))"
    by (rule fl_eval [where e = "3" and k = "- 49" and m = "- 6835360038125908", THEN trans])
       (simp_all add: pow2_def rne_def Let_def)
  then show ?thesis by simp
qed

lemma far_dLat: "num_div (Num (- (1708840009531477 / 140737488355328))) (Num 180) = Num (- (4860700471556201 / 72057594037927936))"
proof -
  have "fl ((- (1708840009531477 / 140737488355328)) / 180) = Num (- (4860700471556201 / 72057594037927936))"
    by (rule fl_eval [where e = "- 4" and k = "- 56" and m = "- 4860700471556201", THEN trans])
       (simp_all add: pow2_def rne_def Let_def)
  then show ?thesis by simp
qed

lemma far_dlon0: "num_sub (Num (8467554303491415 / 281474976710656)) (Num (- (329587885817987 / 2199023255552))) = Num (6331850461024219 / 35184372088832)"
proof -
  have "fl ((8467554303491415 / 281474976710656) - (- (329587885817987 / 2199023255552))) = Num (6331850461024219 / 35184372088832)"
    by (rule fl_eval [where e = "7" and k = "- 45" and m = "6331850461024219", THEN trans])
       (simp_all add: pow2_def rne_def Let_def)
  then show ?thesis by simp
qed

lemma far_dlon1: "num_mul (Num (6331850461024219 / 35184372088832)) (Num (884279719003555 / 281474976710656)) = Num (1243255930748927 / 2199023255552)"
proof -
  have "fl ((6331850461024219 / 35184372088832) * (884279719003555 / 281474976710656)) = Num (1243255930748927 / 2199023255552)"
    by (rule fl_eval [where e = "9" and k = "- 43" and m = "4973023722995708", THEN trans])
       (simp_all add: pow2_def rne_def Let_def)
  then show ?thesis by simp
qed

lemma far_dLon: "num_div (Num (1243255930748927 / 2199023255552)) (Num 180) = Num (7072744850482785 / 2251799813685248)"
proof -
  have "fl ((1243255930748927 / 2199023255552) / 180) = Num (7072744850482785 / 2251799813685248)"
    by (rule fl_eval [where e = "1" and k = "- 51" and m = "7072744850482785", THEN trans])
       (simp_all add: pow2_def rne_def Let_def)
  then show ?thesis by simp
qed

lemma far_hLat: "num_div (Num (- (4860700471556201 / 72057594037927936))) (Num 2) = Num (- (4860700471556201 / 144115188075855872))"
proof -
  have "fl ((- (4860700471556201 / 72057594037927936)) / 2) = Num (- (4860700471556201 / 144115188075855872))"
    by (rule fl_eval [where e = "- 5" and k = "- 57" and m = "- 4860700471556201", THEN trans])
       (simp_all add: pow2_def rne_def Let_def)
  then show ?thesis by simp
qed

lemma far_s1s1: "num_mul (Num (- (4859778959289613 / 144115188075855872))) (Num (- (4859778959289613 / 144115188075855872))) = Num (2622063847507631 / 2305843009213693952)"
proof -
  have "fl ((- (4859778959289613 / 144115188075855872)) * (- (4859778959289613 / 144115188075855872))) = Num (2622063847507631 / 2305843009213693952)"
    by (rule fl_eval [where e = "- 10" and k = "- 62" and m = "5244127695015262", THEN trans])
       (simp_all add: pow2_def rne_def Let_def)
  then show ?thesis by simp
qed

lemma far_p1a: "num_mul (Num (4396771789747471 / 2251799813685248)) (Num (884279719003555 / 281474976710656)) = Num (6906432977090751 / 1125899906842624)"
proof -
  have "fl ((4396771789747471 / 2251799813685248) * (884279719003555 / 281474976710656)) = Num (6906432977090751 / 1125899906842624)"
    by (rule fl_eval [where e = "2" and k = "- 50" and m = "6906432977090751", THEN trans])
       (simp_all add: pow2_def rne_def Let_def)
  then show ?thesis by simp
qed

lemma far_p1: "num_div (Num (6906432977090751 / 1125899906842624)) (Num 180) = Num (4911241228153423 / 144115188075855872)"
proof -
  have "fl ((6906432977090751 / 1125899906842624) / 180) = Num (4911241228153423 / 144115188075855872)"
    by (rule fl_eval [where e = "- 5" and k = "- 57" and m = "4911241228153423", THEN trans])
       (simp_all add: pow2_def rne_def Let_def)
  then show ?thesis by simp
qed

lemma far_p2a: "num_mul (Num (- (4306278913296885 / 2251799813685248))) (Num (884279719003555 / 281474976710656)) = Num (- (3382143549580533 / 562949953421312))"
proof -
  have "fl ((- (4306278913296885 / 2251799813685248)) * (884279719003555 / 281474976710656)) = Num (- (3382143549580533 / 562949953421312))"
    by (rule fl_eval [where e = "2" and k = "- 50" and m = "- 6764287099161066", THEN trans])
       (simp_all add: pow2_def rne_def Let_def)
  then show ?thesis by simp
qed

lemma far_p2: "num_div (Num (- (3382143549580533 / 562949953421312))) (Num 180) = Num (- (1202539928739745 / 36028797018963968))"
proof -
  have "fl ((- (3382143549580533 / 562949953421312)) / 180) = Num (- (1202539928739745 / 36028797018963968))"
    by (rule fl_eval [where e = "- 5" and k = "- 57" and m = "- 4810159714958980", THEN trans])
       (simp_all add: pow2_def rne_def Let_def)
  then show ?thesis by simp
qed

lemma far_cc: "num_mul (Num (4500984753325079 / 4503599627370496)) (Num (9002182545351823 / 9007199254740992)) = Num (562309731878509 / 562949953421312)"
proof -
  have "fl ((4500984753325079 / 4503599627370496) * (9002182545351823 / 9007199254740992)) = Num (562309731878509 / 562949953421312)"
    by (rule fl_eval [where e = "- 1" and k = "- 53" and m = "8996955710056144", THEN trans])
       (simp_all add: pow2_def rne_def Let_def)
  then show ?thesis by simp
qed

lemma far_hLon: "num_div (Num (7072744850482785 / 2251799813685248)) (Num 2) = Num (7072744850482785 / 4503599627370496)"
proof -
  have "fl ((7072744850482785 / 2251799813685248) / 2) = Num (7072744850482785 / 4503599627370496)"
    by (rule fl_eval [where e = "0" and k = "- 52" and m = "7072744850482785", THEN trans])
       (simp_all add: pow2_def rne_def Let_def)
  then show ?thesis by simp
qed

lemma far_ccs: "num_mul (Num (562309731878509 / 562949953421312)) (Num (562949922491123 / 562949953421312)) = Num (2249238803933983 / 2251799813685248)"
proof -
  have "fl ((562309731878509 / 562949953421312) * (562949922491123 / 562949953421312)) = Num (2249238803933983 / 2251799813685248)"
    by (rule fl_eval [where e = "- 1" and k = "- 53" and m = "8996955215735932", THEN trans])
       (simp_all add: pow2_def rne_def Let_def)
  then show ?thesis by simp
qed

lemma far_ccss: "num_mul (Num (2249238803933983 / 2251799813685248)) (Num (562949922491123 / 562949953421312)) = Num (8996954721415747 / 9007199254740992)"
proof -
  have "fl ((2249238803933983 / 2251799813685248) * (562949922491123 / 562949953421312)) = Num (8996954721415747 / 9007199254740992)"
    by (rule fl_eval [where e = "- 1" and k = "- 53" and m = "8996954721415747", THEN trans])
       (simp_all add: pow2_def rne_def Let_def)
  then show ?thesis by simp
qed

lemma far_a: "num_add (Num (2622063847507631 / 2305843009213693952)) (Num (8996954721415747 / 9007199254740992)) = Num (4503598579160037 / 4503599627370496)"
proof -
  have "fl ((2622063847507631 / 2305843009213693952) + (8996954721415747 / 9007199254740992)) = Num (4503598579160037 / 4503599627370496)"
    by (rule fl_eval [where e = "- 1" and k = "- 53" and m = "9007197158320074", THEN trans])
       (simp_all add: pow2_def rne_def Let_def)
  then show ?thesis by simp
qed

lemma mul_three_quarters_two: "num_mul (Num (3 / 4)) (Num 2) = Num (3 / 2)"
proof -
  have "fl ((3 / 4) * 2) = Num (3 / 2)"
    by (rule fl_eval [where e = "0" and k = "- 52" and m = "6755399441055744", THEN trans])
       (simp_all add: pow2_def rne_def Let_def)
  then show ?thesis by simp
qed

lemma mul_quarter_two: "num_mul (Num (1 / 4)) (Num 2) = Num (1 / 2)"
proof -
  have "fl ((1 / 4) * 2) = Num (1 / 2)"
    by (rule fl_eval [where e = "- 1" and k = "- 53" and m = "4503599627370496", THEN trans])
       (simp_all add: pow2_def rne_def Let_def)
  then show ?thesis by simp
qed

lemma lit_0_001: "fl 0.001 = Num (1152921504606847 / 1152921504606846976)"
  by (rule fl_eval [where e = "- 10" and k = "- 62" and m = "4611686018427388", THEN trans])
     (simp_all add: pow2_def rne_def Let_def)

lemma lit_2_50025: "fl 2.50025 = Num (5630062484166541 / 2251799813685248)"
  by (rule fl_eval [where e = "1" and k = "- 51" and m = "5630062484166541", THEN trans])
     (simp_all add: pow2_def rne_def Let_def)

lemma jit_centre: "num_sub (Num 0) (Num (1 / 2)) = Num (- (1 / 2))"
proof -
  have "fl (0 - (1 / 2)) = Num (- (1 / 2))"
    by (rule fl_eval [where e = "- 1" and k = "- 53" and m = "- 4503599627370496", THEN trans])
       (simp_all add: pow2_def rne_def Let_def)
  then show ?thesis by simp
qed

lemma jit_scale: "num_mul (Num (- (1 / 2))) (Num (1152921504606847 / 1152921504606846976)) = Num (- (1152921504606847 / 2305843009213693952))"
proof -
  have "fl ((- (1 / 2)) * (1152921504606847 / 1152921504606846976)) = Num (- (1152921504606847 / 2305843009213693952))"
    by (rule fl_eval [where e = "- 11" and k = "- 63" and m = "- 4611686018427388", THEN trans])
       (simp_all add: pow2_def rne_def Let_def)
  then show ?thesis by simp
qed

lemma jit_sum: "num_add (Num (5630062484166541 / 2251799813685248)) (Num (- (1152921504606847 / 2305843009213693952))) = Num (2814468292129849 / 1125899906842624)"
proof -
  have "fl ((5630062484166541 / 2251799813685248) + (- (1152921504606847 / 2305843009213693952))) = Num (2814468292129849 / 1125899906842624)"
    by (rule fl_eval [where e = "1" and k = "- 51" and m = "5628936584259698", THEN trans])
       (simp_all add: pow2_def rne_def Let_def)
  then show ?thesis by simp
qed

section \<open>Properties of the distance\<close>

lemma not_negative_fl: "0 \<le> x \<Longrightarrow> not_negative (fl x)"
  using fl_nonneg [of x] by (cases "fl x") (simp_all add: not_negative_def)

lemma not_negative_mul: "0 \<le> c \<Longrightarrow> not_negative z \<Longrightarrow> not_negative (num_mul (Num c) z)"
  by (cases z) (simp_all add: not_negative_def [of NaN] not_negative_fl not_negative_def [of "Num _"])

lemma not_negative_sqrt: "not_negative (Math_sqrt z)"
  by (cases z) (simp_all add: not_negative_fl not_negative_def [of NaN])

lemma not_negative_atan2:
  assumes "\<forall>y x. 0 \<le> y \<longrightarrow> 0 \<le> matan2 L y x" "not_negative y"
  shows "not_negative (Math_atan2 L y x)"
  using assms by (cases y; cases x) (simp_all add: not_negative_def)

lemma not_negative_not_less: "not_negative z \<Longrightarrow> \<not> num_less z (Num 0)"
  by (cases z) (simp_all add: not_negative_def)

text \<open>
  The distance is never a negative number, for a library whose \<open>atan2\<close> is not negative on a
  first argument that is not negative.
\<close>

lemma calculateDistance_not_negative:
  assumes "\<forall>y x. 0 \<le> y \<longrightarrow> 0 \<le> matan2 L y x"
  shows "not_negative (calculateDistance L a b)"
  unfolding calculateDistance_def Let_def
  by (intro not_negative_mul not_negative_atan2 [OF assms] not_negative_sqrt) simp_all

lemma num_mul_PI_div:
  assumes "\<bar>x\<bar> \<le> pow2 1000"
  shows "\<exists>y. num_div (num_mul (Num x) Math_PI) (Num 180) = Num y"
proof -
  have p: "pow2 1000 * 4 \<le> pow2 1023" by (simp add: pow2_def)
  have "\<bar>x * (884279719003555 / 281474976710656)\<bar> \<le> pow2 1000 * 4"
    unfolding abs_mult using assms by (intro mult_mono) simp_all
  then have b: "\<bar>x * (884279719003555 / 281474976710656)\<bar> \<le> pow2 1023" using p by linarith
  from fl_Num [OF b] obtain y where y: "fl (x * (884279719003555 / 281474976710656)) = Num y"
    and e: "\<bar>y - x * (884279719003555 / 281474976710656)\<bar>
             \<le> max (\<bar>x * (884279719003555 / 281474976710656)\<bar> * pow2 (- 53)) (pow2 (- 1075))"
    by blast
  have "pow2 (- 53) \<le> 1" "pow2 (- 1075) \<le> 1" "1 \<le> pow2 1000" by (simp_all add: pow2_def)
  then have "\<bar>x * (884279719003555 / 281474976710656)\<bar> * pow2 (- 53) \<le> (pow2 1000 * 4) * 1"
    using \<open>\<bar>x * (884279719003555 / 281474976710656)\<bar> \<le> pow2 1000 * 4\<close>
    by (intro mult_mono) (simp_all add: pow2_pos less_imp_le)
  then have "max (\<bar>x * (884279719003555 / 281474976710656)\<bar> * pow2 (- 53)) (pow2 (- 1075))
      \<le> pow2 1000 * 4"
    using \<open>pow2 (- 1075) \<le> 1\<close> \<open>1 \<le> pow2 1000\<close> by simp
  with e \<open>\<bar>x * (884279719003555 / 281474976710656)\<bar> \<le> pow2 1000 * 4\<close>
  have "\<bar>y\<bar> \<le> pow2 1000 * 8" by linarith
  then have "\<bar>y / 180\<bar> \<le> pow2 1023" using p by (simp add: pow2_def)
  from fl_Num [OF this] obtain z where "fl (y / 180) = Num z" by blast
  then show ?thesis using y by (simp add: Math_PI_def)
qed

text \<open>
  From a coordinate to itself the distance is 0, for a library with \<open>sin 0 = 0\<close>,
  \<open>atan2 0 1 = 0\<close> and a bounded cosine, and a latitude that does not overflow.
\<close>

lemma calculateDistance_self:
  assumes s0: "msin L 0 = 0" and a0: "matan2 L 0 1 = 0" and c: "\<forall>x. \<bar>mcos L x\<bar> \<le> 2"
      and la: "lat a = Num x" and lo: "lon a = Num y" and b: "\<bar>x\<bar> \<le> pow2 1000"
  shows "calculateDistance L a a = Num 0"
proof -
  from num_mul_PI_div [OF b] obtain p where p: "num_div (num_mul (Num x) Math_PI) (Num 180) = Num p"
    by blast
  have "\<bar>mcos L p * mcos L p\<bar> \<le> 2 * 2"
    unfolding abs_mult using c by (intro mult_mono) simp_all
  also have "\<dots> \<le> pow2 1023" by (simp add: pow2_def)
  finally obtain q where q: "fl (mcos L p * mcos L p) = Num q" using fl_Num by blast
  have z: "num_div (num_mul (Num 0) Math_PI) (Num 180) = Num 0"
    by (simp add: Math_PI_def fl_zero)
  show ?thesis
    unfolding calculateDistance_def Let_def la lo
    by (simp add: z p q s0 a0 fl_zero fl_one)
qed

text \<open>
  The correctly rounded library has these properties.
\<close>

lemma atan2_real_nonneg: "0 \<le> y \<Longrightarrow> 0 \<le> atan2_real y x"
proof -
  assume y: "0 \<le> y"
  have lb: "- (pi / 2) < arctan (y / x)" by (rule arctan_lbound)
  show ?thesis
  proof (cases "0 < x")
    case True
    then have "0 \<le> y / x" using y by simp
    then have "0 \<le> arctan (y / x)" by (simp only: zero_le_arctan_iff)
    then show ?thesis using True by (simp add: atan2_real_def)
  next
    case False
    have "0 \<le> arctan (y / x) + pi" using lb pi_gt_zero by linarith
    then show ?thesis using False y pi_gt_zero by (simp add: atan2_real_def)
  qed
qed

lemma nearest_double_nonneg: "0 \<le> x \<Longrightarrow> 0 \<le> nearest_double x"
  using fl_nonneg [of x] by (cases "fl x") (simp_all add: nearest_double_def)

lemma nearest_double_zero: "nearest_double 0 = 0"
  by (simp add: nearest_double_def fl_zero)

lemma nearest_double_bound: "\<bar>x\<bar> \<le> 1 \<Longrightarrow> \<bar>nearest_double x\<bar> \<le> 2"
proof -
  assume a: "\<bar>x\<bar> \<le> 1"
  have "1 \<le> pow2 1023" "pow2 (- 53) \<le> 1" "pow2 (- 1075) \<le> 1" by (simp_all add: pow2_def)
  then have "\<bar>x\<bar> \<le> pow2 1023" using a by linarith
  from fl_Num [OF this] obtain y where y: "fl x = Num y"
    and e: "\<bar>y - x\<bar> \<le> max (\<bar>x\<bar> * pow2 (- 53)) (pow2 (- 1075))" by blast
  have "\<bar>x\<bar> * pow2 (- 53) \<le> 1 * 1"
    using a \<open>pow2 (- 53) \<le> 1\<close> by (intro mult_mono) (simp_all add: pow2_pos less_imp_le)
  then have "max (\<bar>x\<bar> * pow2 (- 53)) (pow2 (- 1075)) \<le> 1"
    using \<open>pow2 (- 1075) \<le> 1\<close> by simp
  with e a have "\<bar>y\<bar> \<le> 2" by linarith
  then show ?thesis using y by (simp add: nearest_double_def)
qed

lemma libm_rounded_sin_zero: "msin libm_rounded 0 = 0"
  by (simp add: libm_rounded_def nearest_double_zero)

lemma libm_rounded_atan2_zero: "matan2 libm_rounded 0 1 = 0"
  by (simp add: libm_rounded_def atan2_real_def nearest_double_zero)

lemma libm_rounded_cos_bound: "\<forall>x. \<bar>mcos libm_rounded x\<bar> \<le> 2"
  by (simp add: libm_rounded_def nearest_double_bound)

lemma libm_rounded_atan2_nonneg: "\<forall>y x. 0 \<le> y \<longrightarrow> 0 \<le> matan2 libm_rounded y x"
  by (simp add: libm_rounded_def nearest_double_nonneg atan2_real_nonneg)

lemma fl_literal:
  assumes "\<bar>x\<bar> \<le> 1000"
  shows "\<exists>y. fl x = Num y \<and> \<bar>y\<bar> \<le> pow2 1000"
proof -
  have c: "1000 \<le> pow2 1023" "pow2 (- 53) \<le> 1" "pow2 (- 1075) \<le> 1" "2000 \<le> pow2 1000"
    by (simp_all add: pow2_def)
  then have "\<bar>x\<bar> \<le> pow2 1023" using assms by linarith
  from fl_Num [OF this] obtain y where y: "fl x = Num y"
    and e: "\<bar>y - x\<bar> \<le> max (\<bar>x\<bar> * pow2 (- 53)) (pow2 (- 1075))" by blast
  have "\<bar>x\<bar> * pow2 (- 53) \<le> 1000 * 1"
    using assms c(2) by (intro mult_mono) (simp_all add: pow2_pos less_imp_le)
  then have "max (\<bar>x\<bar> * pow2 (- 53)) (pow2 (- 1075)) \<le> 1000" using c(3) by simp
  with e assms c(4) have "\<bar>y\<bar> \<le> pow2 1000" by linarith
  with y show ?thesis by blast
qed

lemma calculateDistance_self_literal:
  assumes s0: "msin L 0 = 0" and a0: "matan2 L 0 1 = 0" and c: "\<forall>x. \<bar>mcos L x\<bar> \<le> 2"
      and "\<bar>x\<bar> \<le> 1000" "\<bar>y\<bar> \<le> 1000"
  shows "calculateDistance L \<lparr>lat = fl x, lon = fl y\<rparr> \<lparr>lat = fl x, lon = fl y\<rparr> = Num 0"
proof -
  from fl_literal [OF assms(4)] obtain x' where x: "fl x = Num x'" "\<bar>x'\<bar> \<le> pow2 1000" by blast
  from fl_literal [OF assms(5)] obtain y' where y: "fl y = Num y'" by blast
  show ?thesis
    unfolding x(1) y
    by (rule calculateDistance_self [OF s0 a0 c _ _ x(2)]) simp_all
qed

lemma atan2_real_bound: "\<bar>atan2_real y x\<bar> \<le> 6"
proof -
  have p: "pi < 4" using pi_less_4 by simp
  have a: "- (pi / 2) < arctan (y / x)" "arctan (y / x) < pi / 2"
    using arctan_lbound [of "y / x"] arctan_ubound [of "y / x"] by simp_all
  have q: "0 < pi" by simp
  show ?thesis
    unfolding atan2_real_def using p a q by (simp add: abs_le_iff)
qed

lemma fl_bounded:
  assumes "\<bar>x\<bar> \<le> pow2 1000"
  shows "\<exists>y. fl x = Num y \<and> \<bar>y\<bar> \<le> 2 * \<bar>x\<bar> + 1"
proof -
  have le: "pow2 1000 \<le> pow2 1023" "pow2 (- 53) \<le> 1" "pow2 (- 1075) \<le> 1" by (simp_all add: pow2_def)
  then have "\<bar>x\<bar> \<le> pow2 1023" using assms by linarith
  from fl_Num [OF this] obtain y where y: "fl x = Num y"
    and e: "\<bar>y - x\<bar> \<le> max (\<bar>x\<bar> * pow2 (- 53)) (pow2 (- 1075))" by blast
  have "\<bar>x\<bar> * pow2 (- 53) \<le> \<bar>x\<bar> * 1"
    using le by (intro mult_left_mono) simp_all
  then have "max (\<bar>x\<bar> * pow2 (- 53)) (pow2 (- 1075)) \<le> \<bar>x\<bar> + 1" using le by simp
  then have "\<bar>y - x\<bar> \<le> \<bar>x\<bar> + 1" using e by linarith
  then have "\<bar>y\<bar> \<le> 2 * \<bar>x\<bar> + 1" by linarith
  with y show ?thesis by blast
qed

lemma libm_rounded_atan2_bound: "\<bar>matan2 libm_rounded y x\<bar> \<le> 13"
proof -
  have b: "\<bar>atan2_real y x\<bar> \<le> 6" by (rule atan2_real_bound)
  have "(6::real) \<le> pow2 1000" by (simp add: pow2_def)
  then have "\<bar>atan2_real y x\<bar> \<le> pow2 1000" using b by linarith
  from fl_bounded [OF this] obtain z where z: "fl (atan2_real y x) = Num z"
    and "\<bar>z\<bar> \<le> 2 * \<bar>atan2_real y x\<bar> + 1" by blast
  then have "\<bar>z\<bar> \<le> 13" using b by linarith
  then show ?thesis using z by (simp add: libm_rounded_def nearest_double_def)
qed

text \<open>
  Near-antipodal pairs. The sum under the square root rounds to
  \<open>1.0000000000000002\<close>, one minus it is negative, its square root is NaN, and so is
  the distance. The hypotheses are the four values of the library that enter.
\<close>

lemma calculateDistance_antipodal_NaN:
  assumes "msin L (6877731147805427 / 4503599627370496) = 8998626396882423 / 9007199254740992"
      and "msin L (884279719003555 / 562949953421312) = 1"
      and "mcos L (- (6877731147805427 / 4503599627370496)) = 3143108106954521 / 72057594037927936"
      and "mcos L (6877731147805427 / 4503599627370496) = 3143108106954521 / 72057594037927936"
  shows "calculateDistance L \<lparr>lat = Num (- (175 / 2)), lon = Num (- 180)\<rparr> \<lparr>lat = Num (175 / 2), lon = Num 0\<rparr> = NaN"
  unfolding calculateDistance_def Let_def
  apply (simp only: Location.select_convs Math_PI_def Math_sin.simps Math_cos.simps assms
      anti_dlat0 anti_dlat1 anti_dLat anti_dlon0 anti_dlon1 anti_dLon anti_hLat anti_s1s1 anti_p1a anti_p1 anti_p2a anti_p2 anti_cc anti_hLon anti_ccs anti_ccss anti_a anti_oma)
  apply (simp add: Math_atan2_NaN_right)
  done

lemma calculateDistance_antipodal_reverse_NaN:
  assumes "msin L (- (6877731147805427 / 4503599627370496)) = - (8998626396882423 / 9007199254740992)"
      and "msin L (- (884279719003555 / 562949953421312)) = - 1"
      and "mcos L (6877731147805427 / 4503599627370496) = 3143108106954521 / 72057594037927936"
      and "mcos L (- (6877731147805427 / 4503599627370496)) = 3143108106954521 / 72057594037927936"
  shows "calculateDistance L \<lparr>lat = Num (175 / 2), lon = Num 0\<rparr> \<lparr>lat = Num (- (175 / 2)), lon = Num (- 180)\<rparr> = NaN"
  unfolding calculateDistance_def Let_def
  apply (simp only: Location.select_convs Math_PI_def Math_sin.simps Math_cos.simps assms
      rev_dlat0 rev_dlat1 rev_dLat rev_dlon0 rev_dlon1 rev_dLon rev_hLat rev_s1s1 rev_p1a rev_p1 rev_p2a rev_p2 rev_cc rev_hLon rev_ccs rev_ccss rev_a rev_oma)
  apply (simp add: Math_atan2_NaN_right)
  done

lemma calculateDistance_near_antipode_NaN:
  assumes "msin L (- (4911241341341227 / 144115188075855872)) = - (4910290785020707 / 144115188075855872)"
      and "msin L (7074237789757707 / 4503599627370496) = 1"
      and "mcos L (4911241228153423 / 144115188075855872) = 4500984753325079 / 4503599627370496"
      and "mcos L (- (2455620727264515 / 72057594037927936)) = 9001969506168091 / 9007199254740992"
  shows "calculateDistance L \<lparr>lat = fl 1.95255891, lon = fl (- 149.87921796)\<rparr> \<lparr>lat = fl (- 1.952559), lon = fl 30.120783\<rparr> = NaN"
  unfolding calculateDistance_def Let_def
  apply (simp only: Location.select_convs lit_query_lat lit_query_lon lit_stop_lat lit_stop_lon Math_PI_def Math_sin.simps Math_cos.simps assms
      near_dlat0 near_dlat1 near_dLat near_dlon0 near_dlon1 near_dLon near_hLat near_s1s1 near_p1a near_p1 near_p2a near_p2 near_cc near_hLon near_ccs near_ccss near_a near_oma)
  apply (simp add: Math_atan2_NaN_right)
  done

text \<open>
  When the sum under the square root is a number between 0 and 1, the rest of the
  computation yields a number, for a library whose \<open>atan2\<close> is bounded.
\<close>

lemma haversine_tail_Num:
  assumes a: "0 \<le> av" "av \<le> 1" and L: "\<forall>y x. \<bar>matan2 L y x\<bar> \<le> 13"
  shows "\<exists>d. num_mul (Num 6371)
           (num_mul (Num 2)
              (Math_atan2 L (Math_sqrt (Num av)) (Math_sqrt (num_sub (Num 1) (Num av))))) = Num d"
proof -
  have big: "(100000000::real) \<le> pow2 1000" by (simp add: pow2_def)
  have "\<bar>1 - av\<bar> \<le> pow2 1000" using a big by (simp add: abs_le_iff)
  from fl_bounded [OF this] obtain b where b: "fl (1 - av) = Num b" by blast
  have b0: "0 \<le> b" using fl_nonneg [OF _ b] a by simp
  have "\<bar>sqrt av\<bar> \<le> 1" using a by (simp add: real_sqrt_le_1_iff)
  then have "\<bar>sqrt av\<bar> \<le> pow2 1000" using big by linarith
  from fl_bounded [OF this] obtain s where s: "fl (sqrt av) = Num s" by blast
  have "\<bar>b\<bar> \<le> 3"
  proof -
    have "\<bar>1 - av\<bar> \<le> pow2 1000" using a big by (simp add: abs_le_iff)
    from fl_bounded [OF this] b have "\<bar>b\<bar> \<le> 2 * \<bar>1 - av\<bar> + 1" by simp
    then show ?thesis using a by (simp add: abs_le_iff)
  qed
  then have "sqrt b \<le> sqrt 4" using b0 by (intro real_sqrt_le_mono) simp
  then have "\<bar>sqrt b\<bar> \<le> 2" using b0 by simp
  then have "\<bar>sqrt b\<bar> \<le> pow2 1000" using big by linarith
  from fl_bounded [OF this] obtain t where t: "fl (sqrt b) = Num t" by blast
  define c where "c = matan2 L s t"
  have c: "\<bar>c\<bar> \<le> 13" unfolding c_def using L by blast
  have "\<bar>2 * c\<bar> \<le> pow2 1000" using c big by (simp add: abs_le_iff)
  from fl_bounded [OF this] obtain c2 where c2: "fl (2 * c) = Num c2"
    and c2b: "\<bar>c2\<bar> \<le> 2 * \<bar>2 * c\<bar> + 1" by blast
  have "\<bar>c2\<bar> \<le> 53" using c c2b by linarith
  then have "\<bar>6371 * c2\<bar> \<le> 6371 * 53" by (simp add: abs_mult)
  then have "\<bar>6371 * c2\<bar> \<le> pow2 1000" using big by linarith
  from fl_bounded [OF this] obtain d where d: "fl (6371 * c2) = Num d" by blast
  show ?thesis
    using a b b0 s t c2 d by (simp add: c_def)
qed

lemma calculateDistance_second_stop_Num:
  assumes "msin L (- (4860700471556201 / 144115188075855872)) = - (4859778959289613 / 144115188075855872)"
      and "msin L (7072744850482785 / 4503599627370496) = 562949922491123 / 562949953421312"
      and "mcos L (4911241228153423 / 144115188075855872) = 4500984753325079 / 4503599627370496"
      and "mcos L (- (1202539928739745 / 36028797018963968)) = 9002182545351823 / 9007199254740992"
      and "\<forall>y x. \<bar>matan2 L y x\<bar> \<le> 13"
  shows "\<exists>d. calculateDistance L \<lparr>lat = fl 1.95255891, lon = fl (- 149.87921796)\<rparr>
           \<lparr>lat = fl (- 1.912372), lon = fl 30.082796\<rparr> = Num d"
  unfolding calculateDistance_def Let_def
  apply (simp only: Location.select_convs lit_query_lat lit_query_lon lit_stop2_lat lit_stop2_lon Math_PI_def
      Math_sin.simps Math_cos.simps assms(1-4)
      far_dlat0 far_dlat1 far_dLat far_dlon0 far_dlon1 far_dLon far_hLat far_s1s1 far_p1a far_p1 far_p2a far_p2 far_cc far_hLon far_ccs far_ccss far_a)
  apply (rule haversine_tail_Num [OF _ _ assms(5)])
   apply simp_all
  done

text \<open>
  C5. For the in-range pair \<open>(-87.5, -180)\<close> and \<open>(87.5, 0)\<close> the distance is NaN in
  both directions, and the comparison \<^verbatim>\<open>==\<close> of the two distances is false: the
  distance is not symmetric there.
\<close>

theorem calculateDistance_antipodal_not_equal:
  "calculateDistance libm_observed \<lparr>lat = Num (- (175 / 2)), lon = Num (- 180)\<rparr>
      \<lparr>lat = Num (175 / 2), lon = Num 0\<rparr> = NaN \<and>
   calculateDistance libm_observed \<lparr>lat = Num (175 / 2), lon = Num 0\<rparr>
      \<lparr>lat = Num (- (175 / 2)), lon = Num (- 180)\<rparr> = NaN \<and>
   \<not> num_eq
       (calculateDistance libm_observed \<lparr>lat = Num (- (175 / 2)), lon = Num (- 180)\<rparr>
          \<lparr>lat = Num (175 / 2), lon = Num 0\<rparr>)
       (calculateDistance libm_observed \<lparr>lat = Num (175 / 2), lon = Num 0\<rparr>
          \<lparr>lat = Num (- (175 / 2)), lon = Num (- 180)\<rparr>)"
proof -
  have a: "calculateDistance libm_observed \<lparr>lat = Num (- (175 / 2)), lon = Num (- 180)\<rparr>
      \<lparr>lat = Num (175 / 2), lon = Num 0\<rparr> = NaN"
    by (rule calculateDistance_antipodal_NaN) (simp_all add: libm_observed_def)
  have b: "calculateDistance libm_observed \<lparr>lat = Num (175 / 2), lon = Num 0\<rparr>
      \<lparr>lat = Num (- (175 / 2)), lon = Num (- 180)\<rparr> = NaN"
    by (rule calculateDistance_antipodal_reverse_NaN) (simp_all add: libm_observed_def)
  show ?thesis unfolding a b by simp
qed

section \<open>Properties of the nearest-stop scan\<close>

text \<open>
  The reduction keeps the accumulator unless the next element is strictly closer, so on
  numbers it ends on the leftmost element of least key.
\<close>

lemma foldl_nearest_aux:
  fixes k :: "'a \<Rightarrow> real"
  shows "\<exists>i < length (x # xs).
           foldl (\<lambda>n s. if k s < k n then s else n) x xs = (x # xs) ! i \<and>
           (\<forall>j < length (x # xs). k ((x # xs) ! i) \<le> k ((x # xs) ! j)) \<and>
           (\<forall>j < i. k ((x # xs) ! i) < k ((x # xs) ! j))"
proof (induction xs rule: rev_induct)
  case Nil
  show ?case by simp
next
  case (snoc y ys)
  let ?f = "\<lambda>n s. if k s < k n then s else n"
  let ?zs = "x # ys"
  from snoc obtain i where i: "i < length ?zs" "foldl ?f x ys = ?zs ! i"
    and le: "\<forall>j < length ?zs. k (?zs ! i) \<le> k (?zs ! j)"
    and lt: "\<forall>j < i. k (?zs ! i) < k (?zs ! j)"
    by blast
  have app: "x # ys @ [y] = ?zs @ [y]" by simp
  have old: "\<And>j. j < length ?zs \<Longrightarrow> (?zs @ [y]) ! j = ?zs ! j"
    by (simp only: nth_append if_True)
  have new: "(?zs @ [y]) ! length ?zs = y"
    by (simp only: nth_append_length)
  have len: "length (?zs @ [y]) = Suc (length ?zs)" by simp
  show ?case
  proof (cases "k y < k (?zs ! i)")
    case True
    have res: "foldl ?f x (ys @ [y]) = y" using True i(2) by simp
    have a: "\<forall>j < length (?zs @ [y]). k y \<le> k ((?zs @ [y]) ! j)"
    proof (intro allI impI)
      fix j assume "j < length (?zs @ [y])"
      then consider "j < length ?zs" | "j = length ?zs" using len by linarith
      then show "k y \<le> k ((?zs @ [y]) ! j)"
      proof cases
        case 1
        then show ?thesis using old [OF 1] le True by force
      next
        case 2
        then show ?thesis using new by simp
      qed
    qed
    have b: "\<forall>j < length ?zs. k y < k ((?zs @ [y]) ! j)"
    proof (intro allI impI)
      fix j assume j: "j < length ?zs"
      then show "k y < k ((?zs @ [y]) ! j)" using old [OF j] le True by force
    qed
    show ?thesis
      unfolding app
      apply (rule exI [of _ "length ?zs"])
      using res a b new len by simp
  next
    case False
    have res: "foldl ?f x (ys @ [y]) = ?zs ! i" using False i(2) by simp
    have a: "\<forall>j < length (?zs @ [y]). k (?zs ! i) \<le> k ((?zs @ [y]) ! j)"
    proof (intro allI impI)
      fix j assume "j < length (?zs @ [y])"
      then consider "j < length ?zs" | "j = length ?zs" using len by linarith
      then show "k (?zs ! i) \<le> k ((?zs @ [y]) ! j)"
      proof cases
        case 1
        then show ?thesis using old [OF 1] le by simp
      next
        case 2
        then show ?thesis using new False by simp
      qed
    qed
    have b: "\<forall>j < i. k (?zs ! i) < k ((?zs @ [y]) ! j)"
    proof (intro allI impI)
      fix j assume j: "j < i"
      then have "j < length ?zs" using i(1) by linarith
      then show "k (?zs ! i) < k ((?zs @ [y]) ! j)" using old lt j by simp
    qed
    show ?thesis
      unfolding app
      apply (rule exI [of _ i])
      using res a b old [OF i(1)] i(1) len by simp
  qed
qed

text \<open>
  When the computed distance of every stop is a number, the scan returns the leftmost
  stop of least computed distance.
\<close>

lemma findNearestStop_nearest_first_without_NaN:
  assumes "stops \<noteq> []"
      and "\<forall>t \<in> set stops. calculateDistance L p (positionOf t) \<noteq> NaN"
  shows "\<exists>i < length stops.
           findNearestStop L stops p = Inr (stops ! i) \<and>
           stops ! i \<in> set stops \<and>
           (\<forall>t \<in> set stops.
              \<not> num_less (calculateDistance L p (positionOf t))
                   (calculateDistance L p (positionOf (stops ! i)))) \<and>
           (\<forall>j < i.
              num_less (calculateDistance L p (positionOf (stops ! i)))
                (calculateDistance L p (positionOf (stops ! j))))"
proof -
  from assms(1) obtain x xs where xs: "stops = x # xs" by (cases stops) auto
  let ?d = "\<lambda>s. calculateDistance L p (positionOf s)"
  let ?k = "\<lambda>s. case ?d s of Num v \<Rightarrow> v | NaN \<Rightarrow> 0"
  have num: "\<And>s. s \<in> set stops \<Longrightarrow> ?d s = Num (?k s)"
    using assms(2) by (auto split: number.splits)
  have less: "\<And>s t. s \<in> set stops \<Longrightarrow> t \<in> set stops \<Longrightarrow> num_less (?d s) (?d t) = (?k s < ?k t)"
  proof -
    fix s t assume "s \<in> set stops" "t \<in> set stops"
    then have "?d s = Num (?k s)" "?d t = Num (?k t)" using num by blast+
    then show "num_less (?d s) (?d t) = (?k s < ?k t)" by (metis num_less.simps(1))
  qed
  have fold_eq: "\<And>acc ys. acc \<in> set stops \<Longrightarrow> set ys \<subseteq> set stops \<Longrightarrow>
      foldl (\<lambda>n s. if num_less (?d s) (?d n) then s else n) acc ys
        = foldl (\<lambda>n s. if ?k s < ?k n then s else n) acc ys"
  proof -
    fix acc ys show "acc \<in> set stops \<Longrightarrow> set ys \<subseteq> set stops \<Longrightarrow>
      foldl (\<lambda>n s. if num_less (?d s) (?d n) then s else n) acc ys
        = foldl (\<lambda>n s. if ?k s < ?k n then s else n) acc ys"
    proof (induction ys arbitrary: acc)
      case Nil
      show ?case by simp
    next
      case (Cons y ys)
      have y: "y \<in> set stops" using Cons.prems(2) by simp
      have e: "(if num_less (?d y) (?d acc) then y else acc) = (if ?k y < ?k acc then y else acc)"
        using less [OF y Cons.prems(1)] by simp
      have m: "(if ?k y < ?k acc then y else acc) \<in> set stops" using y Cons.prems(1) by simp
      have s: "set ys \<subseteq> set stops" using Cons.prems(2) by simp
      show ?case using Cons.IH [OF m s] e by simp
    qed
  qed
  from foldl_nearest_aux [where k = ?k and x = x and xs = xs] obtain i where i: "i < length stops"
    and res: "foldl (\<lambda>n s. if ?k s < ?k n then s else n) x xs = stops ! i"
    and le: "\<forall>j < length stops. ?k (stops ! i) \<le> ?k (stops ! j)"
    and lt: "\<forall>j < i. ?k (stops ! i) < ?k (stops ! j)"
    unfolding xs by blast
  have "findNearestStop L stops p =
      Inr (foldl (\<lambda>n s. if num_less (?d s) (?d n) then s else n) x xs)"
    by (simp add: findNearestStop_def Array_reduce_def xs Let_def)
  also have "\<dots> = Inr (stops ! i)"
  proof -
    have "x \<in> set stops" "set xs \<subseteq> set stops" by (auto simp: xs)
    from fold_eq [OF this] res show ?thesis by simp
  qed
  finally have r: "findNearestStop L stops p = Inr (stops ! i)" .
  have m: "stops ! i \<in> set stops" using i by simp
  have n: "\<forall>t \<in> set stops. \<not> num_less (?d t) (?d (stops ! i))"
  proof
    fix t assume t: "t \<in> set stops"
    then obtain j where "j < length stops" "stops ! j = t" by (auto simp: in_set_conv_nth)
    with le have "?k (stops ! i) \<le> ?k t" by blast
    then show "\<not> num_less (?d t) (?d (stops ! i))" using less [OF t m] by simp
  qed
  have f: "\<forall>j < i. num_less (?d (stops ! i)) (?d (stops ! j))"
  proof (intro allI impI)
    fix j assume j: "j < i"
    then have "stops ! j \<in> set stops" using i by simp
    then show "num_less (?d (stops ! i)) (?d (stops ! j))" using less [OF m] lt j by simp
  qed
  from i r m n f show ?thesis by blast
qed

lemma num_less_NaN_right: "num_less x NaN = False"
  by (cases x) simp_all

text \<open>
  C1. With the two listed stops and the in-range query \<open>(1.95255891, -149.87921796)\<close>,
  which lies near the antipode of the first stop, the computed distance to the first
  stop is NaN, while the distance to the second stop is a number. No comparison with NaN
  is true, so the scan returns the first stop, whose distance is not a least distance.
\<close>

theorem findNearestStop_keeps_first_stop_on_NaN:
  "calculateDistance libm_observed \<lparr>lat = fl 1.95255891, lon = fl (- 149.87921796)\<rparr>
      \<lparr>lat = fl (- 1.952559), lon = fl 30.120783\<rparr> = NaN \<and>
   calculateDistance libm_observed \<lparr>lat = fl 1.95255891, lon = fl (- 149.87921796)\<rparr>
      \<lparr>lat = fl (- 1.912372), lon = fl 30.082796\<rparr> \<noteq> NaN \<and>
   findNearestStop libm_observed mock_stops \<lparr>lat = fl 1.95255891, lon = fl (- 149.87921796)\<rparr> =
     Inr \<lparr>stop_id = ''3a7a'', stop_name = ''Kwa Rwahama'',
          stop_lat = fl (- 1.952559), stop_lon = fl 30.120783\<rparr>"
proof -
  have a: "calculateDistance libm_observed \<lparr>lat = fl 1.95255891, lon = fl (- 149.87921796)\<rparr>
      \<lparr>lat = fl (- 1.952559), lon = fl 30.120783\<rparr> = NaN"
    by (rule calculateDistance_near_antipode_NaN) (simp_all add: libm_observed_def)
  have "\<forall>y x. \<bar>matan2 libm_observed y x\<bar> \<le> 13"
    using libm_rounded_atan2_bound by (simp add: libm_observed_def)
  then have "\<exists>d. calculateDistance libm_observed \<lparr>lat = fl 1.95255891, lon = fl (- 149.87921796)\<rparr>
      \<lparr>lat = fl (- 1.912372), lon = fl 30.082796\<rparr> = Num d"
    by (intro calculateDistance_second_stop_Num) (simp_all add: libm_observed_def)
  then have b: "calculateDistance libm_observed \<lparr>lat = fl 1.95255891, lon = fl (- 149.87921796)\<rparr>
      \<lparr>lat = fl (- 1.912372), lon = fl 30.082796\<rparr> \<noteq> NaN"
    by auto
  have c: "findNearestStop libm_observed mock_stops \<lparr>lat = fl 1.95255891, lon = fl (- 149.87921796)\<rparr> =
     Inr \<lparr>stop_id = ''3a7a'', stop_name = ''Kwa Rwahama'',
          stop_lat = fl (- 1.952559), stop_lon = fl 30.120783\<rparr>"
    unfolding findNearestStop_def mock_stops_def Array_reduce_def Let_def
    by (simp only: list.case foldl.simps Stop.select_convs a num_less_NaN_right if_False)
  from a b c show ?thesis by (intro conjI)
qed

text \<open>
  C2, as the code has it. On the empty stop collection \<open>findNearestStop\<close> fails for every
  query point, and the failure is the \<^verbatim>\<open>TypeError\<close> that the reduction raises on an
  empty array: the reduction is entered without a guard, and the result is never a stop.
\<close>

theorem findNearestStop_empty_raises:
  "findNearestStop L [] p = Inl (TypeError ''Reduce of empty array with no initial value'')"
  by (simp add: findNearestStop_def Array_reduce_def)

text \<open>
  C2, as stated, fails: at the empty collection the error is the runtime's
  \<^verbatim>\<open>TypeError\<close>, not \<open>EmptyIndex\<close>.
\<close>

theorem findNearestStop_empty_not_EmptyIndex:
  "findNearestStop libm_rounded [] \<lparr>lat = fl (- 1.9534), lon = fl 30.0616\<rparr> \<noteq> Inl EmptyIndex"
  by (simp add: findNearestStop_def Array_reduce_def)

text \<open>
  A query from the position of the first stop of a collection finds that stop.
\<close>

lemma findNearestStop_at_first:
  assumes "calculateDistance L (positionOf s) (positionOf s) = Num 0"
      and "\<forall>y x. 0 \<le> y \<longrightarrow> 0 \<le> matan2 L y x"
  shows "findNearestStop L (s # rest) (positionOf s) = Inr s"
proof -
  let ?f = "\<lambda>nearest stop.
              if num_less (calculateDistance L (positionOf s) (positionOf stop))
                   (calculateDistance L (positionOf s) (positionOf nearest))
              then stop else nearest"
  have "foldl ?f s rest = s"
  proof (induction rest)
    case Nil
    show ?case by simp
  next
    case (Cons t ts)
    have "\<not> num_less (calculateDistance L (positionOf s) (positionOf t)) (Num 0)"
      by (intro not_negative_not_less calculateDistance_not_negative assms(2))
    then have "?f s t = s" by (simp add: assms(1))
    then show ?case using Cons.IH by simp
  qed
  then show ?thesis by (simp add: findNearestStop_def Array_reduce_def Let_def)
qed

lemma findNearestStop_single: "findNearestStop L [s] p = Inr s"
  by (simp add: findNearestStop_def Array_reduce_def)

lemma findNearestStop_Inr_iff: "(\<exists>s. findNearestStop L stops p = Inr s) \<longleftrightarrow> stops \<noteq> []"
  by (cases stops) (simp_all add: findNearestStop_def Array_reduce_def)

section \<open>Properties of the recommendation\<close>

lemma recommendRoute_empty_stops:
  "recommendRoute L routes [] random start end' =
     Inl (TypeError ''Reduce of empty array with no initial value'')"
  by (simp add: recommendRoute_def findNearestStop_def Array_reduce_def)

lemma recommendRoute_nonempty_stops:
  assumes "stops \<noteq> []"
  shows "\<exists>s e. findNearestStop L stops start = Inr s \<and> findNearestStop L stops end' = Inr e \<and>
     recommendRoute L routes stops random start end' =
       Inr \<lparr>route = Array_get routes (Math_floor (num_mul (Num random) (Num (real (length routes))))),
            startStop = s, endStop = e,
            estimatedDuration =
              Math_round (num_mul (num_div (calculateDistance L start end') (Num 30)) (Num 60))\<rparr>"
proof -
  from assms obtain s where s: "findNearestStop L stops start = Inr s"
    using findNearestStop_Inr_iff [of L stops start] by blast
  from assms obtain e where e: "findNearestStop L stops end' = Inr e"
    using findNearestStop_Inr_iff [of L stops end'] by blast
  show ?thesis using s e by (simp add: recommendRoute_def Let_def)
qed

lemma Array_get_empty: "Array_get [] i = None"
  by (cases i) simp_all

text \<open>
  C3, as the code has it. With an empty stop collection \<open>recommendRoute\<close> always fails,
  with the \<^verbatim>\<open>TypeError\<close> of the empty reduction, whatever the routes are. With a
  non-empty stop collection it never fails; when the route collection is empty the
  recommendation it returns has an undefined route.
\<close>

theorem recommendRoute_errors:
  "recommendRoute L routes [] random start end' =
     Inl (TypeError ''Reduce of empty array with no initial value'') \<and>
   (stops \<noteq> [] \<longrightarrow>
      (\<exists>r. recommendRoute L routes stops random start end' = Inr r) \<and>
      (\<exists>r. recommendRoute L [] stops random start end' = Inr r \<and> route r = None))"
proof -
  have "stops \<noteq> [] \<longrightarrow>
      (\<exists>r. recommendRoute L routes stops random start end' = Inr r) \<and>
      (\<exists>r. recommendRoute L [] stops random start end' = Inr r \<and> route r = None)"
  proof
    assume ne: "stops \<noteq> []"
    from recommendRoute_nonempty_stops [OF ne, of L start end' routes random]
    have a: "\<exists>r. recommendRoute L routes stops random start end' = Inr r" by blast
    from recommendRoute_nonempty_stops [OF ne, of L start end' "[]" random]
    have b: "\<exists>r. recommendRoute L [] stops random start end' = Inr r \<and> route r = None"
      by (auto simp: Array_get_empty)
    from a b show "(\<exists>r. recommendRoute L routes stops random start end' = Inr r) \<and>
      (\<exists>r. recommendRoute L [] stops random start end' = Inr r \<and> route r = None)" ..
  qed
  with recommendRoute_empty_stops show ?thesis by blast
qed

theorem recommendRoute_errors_witness:
  "recommendRoute libm_rounded mock_routes [] (3 / 4) \<lparr>lat = fl (- 1.9534), lon = fl 30.0616\<rparr>
       \<lparr>lat = fl (- 1.9686), lon = fl 30.1344\<rparr> =
     Inl (TypeError ''Reduce of empty array with no initial value'') \<and>
   mock_stops \<noteq> [] \<and>
   (\<exists>r. recommendRoute libm_rounded mock_routes mock_stops (3 / 4)
          \<lparr>lat = fl (- 1.9534), lon = fl 30.0616\<rparr>
          \<lparr>lat = fl (- 1.9686), lon = fl 30.1344\<rparr> = Inr r) \<and>
   (\<exists>r. recommendRoute libm_rounded [] mock_stops (3 / 4) \<lparr>lat = fl (- 1.9534), lon = fl 30.0616\<rparr>
          \<lparr>lat = fl (- 1.9686), lon = fl 30.1344\<rparr> = Inr r \<and> route r = None)"
proof -
  have ne: "mock_stops \<noteq> []" by (simp add: mock_stops_def)
  from recommendRoute_errors [of libm_rounded mock_routes "3 / 4"
      "\<lparr>lat = fl (- 1.9534), lon = fl 30.0616\<rparr>"
      "\<lparr>lat = fl (- 1.9686), lon = fl 30.1344\<rparr>" mock_stops] ne
  show ?thesis by blast
qed

text \<open>
  C3, as stated, fails: with no routes and one stop the call returns a recommendation
  instead of failing with \<open>EmptyCatalog\<close>.
\<close>

theorem recommendRoute_empty_routes_no_error:
  "recommendRoute libm_rounded [] [\<lparr>stop_id = ''3a7a'', stop_name = ''Kwa Rwahama'',
        stop_lat = fl (- 1.952559), stop_lon = fl 30.120783\<rparr>] 0
      \<lparr>lat = fl (- 1.9534), lon = fl 30.0616\<rparr> \<lparr>lat = fl (- 1.9534), lon = fl 30.0616\<rparr>
   = Inr \<lparr>route = None,
          startStop = \<lparr>stop_id = ''3a7a'', stop_name = ''Kwa Rwahama'',
                       stop_lat = fl (- 1.952559), stop_lon = fl 30.120783\<rparr>,
          endStop = \<lparr>stop_id = ''3a7a'', stop_name = ''Kwa Rwahama'',
                     stop_lat = fl (- 1.952559), stop_lon = fl 30.120783\<rparr>,
          estimatedDuration = Num 0\<rparr>"
proof -
  have d: "calculateDistance libm_rounded \<lparr>lat = fl (- 1.9534), lon = fl 30.0616\<rparr>
      \<lparr>lat = fl (- 1.9534), lon = fl 30.0616\<rparr> = Num 0"
    by (rule calculateDistance_self_literal
          [OF libm_rounded_sin_zero libm_rounded_atan2_zero libm_rounded_cos_bound]) simp_all
  show ?thesis
    unfolding recommendRoute_def findNearestStop_single d
    by (simp add: fl_zero)
qed

text \<open>
  With at least one stop every call returns a recommendation whose duration is
  \<^verbatim>\<open>Math.round\<close> of the computed distance divided by 30 and multiplied by 60; for a
  library with \<open>sin 0 = 0\<close>, \<open>atan2 0 1 = 0\<close> and a bounded cosine it is 0 from a
  coordinate to itself.
\<close>

lemma recommendRoute_duration:
  assumes "stops \<noteq> []"
  shows "\<exists>r. recommendRoute L routes stops random start end' = Inr r \<and>
           estimatedDuration r =
             Math_round (num_mul (num_div (calculateDistance L start end') (Num 30)) (Num 60)) \<and>
           (msin L 0 = 0 \<and> matan2 L 0 1 = 0 \<and> (\<forall>x. \<bar>mcos L x\<bar> \<le> 2) \<and>
            start = end' \<and> (\<exists>x y. lat start = Num x \<and> lon start = Num y \<and> \<bar>x\<bar> \<le> pow2 1000)
              \<longrightarrow> estimatedDuration r = Num 0)"
proof -
  from recommendRoute_nonempty_stops [OF assms, of L start end' routes random]
  obtain r where r: "recommendRoute L routes stops random start end' = Inr r"
    and d: "estimatedDuration r =
             Math_round (num_mul (num_div (calculateDistance L start end') (Num 30)) (Num 60))"
    by auto
  have "msin L 0 = 0 \<and> matan2 L 0 1 = 0 \<and> (\<forall>x. \<bar>mcos L x\<bar> \<le> 2) \<and>
            start = end' \<and> (\<exists>x y. lat start = Num x \<and> lon start = Num y \<and> \<bar>x\<bar> \<le> pow2 1000)
              \<longrightarrow> estimatedDuration r = Num 0"
  proof
    assume h: "msin L 0 = 0 \<and> matan2 L 0 1 = 0 \<and> (\<forall>x. \<bar>mcos L x\<bar> \<le> 2) \<and>
            start = end' \<and> (\<exists>x y. lat start = Num x \<and> lon start = Num y \<and> \<bar>x\<bar> \<le> pow2 1000)"
    then obtain x y where xy: "lat start = Num x" "lon start = Num y" "\<bar>x\<bar> \<le> pow2 1000" by blast
    have "calculateDistance L start start = Num 0"
      using h xy by (intro calculateDistance_self [where x = x and y = y]) simp_all
    then show "estimatedDuration r = Num 0" using d h by (simp add: fl_zero)
  qed
  with r d show ?thesis by blast
qed

text \<open>
  C4. For the in-range start \<open>(-87.5, -180)\<close> and end \<open>(87.5, 0)\<close> the recommendation
  over the listed routes and stops has the estimated duration NaN, not a number of
  minutes.
\<close>

theorem recommendRoute_antipodal_duration_NaN:
  "map_sum id estimatedDuration
     (recommendRoute libm_observed mock_routes mock_stops 0
        \<lparr>lat = Num (- (175 / 2)), lon = Num (- 180)\<rparr> \<lparr>lat = Num (175 / 2), lon = Num 0\<rparr>)
   = Inr NaN"
proof -
  have a: "calculateDistance libm_observed \<lparr>lat = Num (- (175 / 2)), lon = Num (- 180)\<rparr>
      \<lparr>lat = Num (175 / 2), lon = Num 0\<rparr> = NaN"
    by (rule calculateDistance_antipodal_NaN) (simp_all add: libm_observed_def)
  have ne: "mock_stops \<noteq> []" by (simp add: mock_stops_def)
  from recommendRoute_nonempty_stops [OF ne, of libm_observed
      "\<lparr>lat = Num (- (175 / 2)), lon = Num (- 180)\<rparr>" "\<lparr>lat = Num (175 / 2), lon = Num 0\<rparr>"
      mock_routes 0]
  show ?thesis unfolding a by auto
qed

text \<open>
  C10. \<open>findNearestStop\<close> takes no random input, and the boundary stops of a
  recommendation do not depend on the random draw or on the routes: two runs on the same
  stops, start and end agree on \<open>startStop\<close> and \<open>endStop\<close>, which are the nearest stops
  of start and end.
\<close>

theorem recommendRoute_stops_independent_of_random:
  assumes "recommendRoute L routes stops random start end' = Inr r"
      and "recommendRoute L routes' stops random' start end' = Inr r'"
  shows "startStop r = startStop r' \<and> endStop r = endStop r' \<and>
         findNearestStop L stops start = Inr (startStop r) \<and>
         findNearestStop L stops end' = Inr (endStop r)"
  using assms by (auto simp: recommendRoute_def Let_def split: sum.splits)

theorem recommendRoute_stops_independent_of_random_witness:
  "recommendRoute libm_rounded mock_routes mock_stops 0
       \<lparr>lat = fl (- 1.952559), lon = fl 30.120783\<rparr> \<lparr>lat = fl (- 1.952559), lon = fl 30.120783\<rparr> =
     Inr \<lparr>route = Some \<lparr>route_id = ''419'', route_short_name = ''419'',
                          route_long_name = ''Nyabugogo-Cyumbati'', route_color = ''e92121''\<rparr>,
          startStop = \<lparr>stop_id = ''3a7a'', stop_name = ''Kwa Rwahama'',
                       stop_lat = fl (- 1.952559), stop_lon = fl 30.120783\<rparr>,
          endStop = \<lparr>stop_id = ''3a7a'', stop_name = ''Kwa Rwahama'',
                     stop_lat = fl (- 1.952559), stop_lon = fl 30.120783\<rparr>,
          estimatedDuration = Num 0\<rparr> \<and>
   recommendRoute libm_rounded mock_routes mock_stops (3 / 4)
       \<lparr>lat = fl (- 1.952559), lon = fl 30.120783\<rparr> \<lparr>lat = fl (- 1.952559), lon = fl 30.120783\<rparr> =
     Inr \<lparr>route = Some \<lparr>route_id = ''101'', route_short_name = ''101'',
                          route_long_name = ''Downtown-Remera'', route_color = ''B55C93''\<rparr>,
          startStop = \<lparr>stop_id = ''3a7a'', stop_name = ''Kwa Rwahama'',
                       stop_lat = fl (- 1.952559), stop_lon = fl 30.120783\<rparr>,
          endStop = \<lparr>stop_id = ''3a7a'', stop_name = ''Kwa Rwahama'',
                     stop_lat = fl (- 1.952559), stop_lon = fl 30.120783\<rparr>,
          estimatedDuration = Num 0\<rparr> \<and>
   findNearestStop libm_rounded mock_stops \<lparr>lat = fl (- 1.952559), lon = fl 30.120783\<rparr> =
     Inr \<lparr>stop_id = ''3a7a'', stop_name = ''Kwa Rwahama'',
          stop_lat = fl (- 1.952559), stop_lon = fl 30.120783\<rparr>"
proof -
  let ?p = "\<lparr>lat = fl (- 1.952559), lon = fl 30.120783\<rparr> :: Location"
  let ?s = "\<lparr>stop_id = ''3a7a'', stop_name = ''Kwa Rwahama'',
             stop_lat = fl (- 1.952559), stop_lon = fl 30.120783\<rparr>"
  have d: "calculateDistance libm_rounded ?p ?p = Num 0"
    by (rule calculateDistance_self_literal
          [OF libm_rounded_sin_zero libm_rounded_atan2_zero libm_rounded_cos_bound]) simp_all
  have "findNearestStop libm_rounded (?s # tl mock_stops) (positionOf ?s) = Inr ?s"
    by (rule findNearestStop_at_first [OF _ libm_rounded_atan2_nonneg])
       (simp only: Stop.select_convs d)
  then have n: "findNearestStop libm_rounded mock_stops ?p = Inr ?s"
    unfolding mock_stops_def by (simp only: list.sel Stop.select_convs)
  have i0: "Array_get mock_routes (Math_floor (num_mul (Num 0) (Num (real (length mock_routes))))) =
      Some \<lparr>route_id = ''419'', route_short_name = ''419'',
            route_long_name = ''Nyabugogo-Cyumbati'', route_color = ''e92121''\<rparr>"
    by (simp add: mock_routes_def fl_zero)
  have i1: "Array_get mock_routes (Math_floor (num_mul (Num (3 / 4)) (Num (real (length mock_routes))))) =
      Some \<lparr>route_id = ''101'', route_short_name = ''101'',
            route_long_name = ''Downtown-Remera'', route_color = ''B55C93''\<rparr>"
  proof -
    have "num_mul (Num (3 / 4)) (Num (real (length mock_routes))) = Num (3 / 2)"
      using mul_three_quarters_two by (simp add: mock_routes_def)
    then show ?thesis by (simp add: mock_routes_def)
  qed
  have h1: "recommendRoute libm_rounded mock_routes mock_stops 0 ?p ?p =
     Inr \<lparr>route = Some \<lparr>route_id = ''419'', route_short_name = ''419'',
                          route_long_name = ''Nyabugogo-Cyumbati'', route_color = ''e92121''\<rparr>,
          startStop = ?s, endStop = ?s, estimatedDuration = Num 0\<rparr>"
    unfolding recommendRoute_def n d Let_def i0 by (simp add: fl_zero)
  have h2: "recommendRoute libm_rounded mock_routes mock_stops (3 / 4) ?p ?p =
     Inr \<lparr>route = Some \<lparr>route_id = ''101'', route_short_name = ''101'',
                          route_long_name = ''Downtown-Remera'', route_color = ''B55C93''\<rparr>,
          startStop = ?s, endStop = ?s, estimatedDuration = Num 0\<rparr>"
    unfolding recommendRoute_def n d Let_def i1 by (simp add: fl_zero)
  from recommendRoute_stops_independent_of_random [OF h1 h2] h1 h2 show ?thesis by simp
qed

section \<open>Properties of the simulated bus locations\<close>

lemma max_le_add: "a \<le> b \<Longrightarrow> 0 \<le> b \<Longrightarrow> 0 \<le> c \<Longrightarrow> max a c \<le> b + c" for a b c :: real
  by linarith

text \<open>
  A double in \<open>[0, 1)\<close>, that is one of at most \<open>1 - 2\<^sup>-\<^sup>5\<^sup>3\<close>, selects an element of a
  non-empty array: the rounded product stays below the length.
\<close>

lemma random_index:
  assumes r: "0 \<le> r" "r \<le> 1 - pow2 (- 53)" and ne: "xs \<noteq> []" and len: "length xs < 2 ^ 32"
  shows "\<exists>x \<in> set xs.
           Array_get xs (Math_floor (num_mul (Num r) (Num (real (length xs))))) = Some x"
proof -
  define n where "n = real (length xs)"
  define p where "p = pow2 (- 53)"
  have n1: "1 \<le> n" using ne by (cases xs) (simp_all add: n_def)
  have n2: "n \<le> 2 ^ 32" using len by (simp add: n_def)
  have p0: "0 < p" "p < 1" by (simp_all add: p_def pow2_def)
  have q: "pow2 (- 1075) < p" "(2::real) ^ 32 \<le> pow2 1023" by (simp_all add: p_def pow2_def)
  have x0: "0 \<le> r * n" using r(1) n1 by simp
  have "r \<le> 1 - p" using r(2) by (simp add: p_def)
  then have x1: "r * n \<le> (1 - p) * n" using n1 by (intro mult_right_mono) simp_all
  have "(1 - p) * n \<le> 1 * n" using p0 n1 by (intro mult_right_mono) simp_all
  then have x2: "\<bar>r * n\<bar> \<le> pow2 1023" using x0 x1 n2 q(2) by linarith
  from fl_Num [OF x2] obtain y where y: "fl (r * n) = Num y"
    and e: "\<bar>y - r * n\<bar> \<le> max (\<bar>r * n\<bar> * pow2 (- 53)) (pow2 (- 1075))" by blast
  have y0: "0 \<le> y" using fl_nonneg [OF x0 y] .
  have a: "r * n + r * n * p < n"
  proof -
    have "r * n + r * n * p = (r * n) * (1 + p)" by (simp add: algebra_simps)
    also have "\<dots> \<le> ((1 - p) * n) * (1 + p)"
      using mult_right_mono [OF x1, of "1 + p"] p0 by simp
    also have "\<dots> = n - (p * p) * n" by (simp add: algebra_simps)
    also have "\<dots> < n" using p0 n1 by simp
    finally show ?thesis .
  qed
  have b: "r * n + pow2 (- 1075) < n"
  proof -
    have "p * 1 \<le> p * n" using p0 n1 by (intro mult_left_mono) simp_all
    then have "(1 - p) * n \<le> n - p" by (simp add: algebra_simps)
    then show ?thesis using x1 q(1) by linarith
  qed
  have "y \<le> r * n + max (r * n * p) (pow2 (- 1075))" using e x0 by (simp add: p_def abs_le_iff)
  then have y1: "y < n" using a b by (auto simp: max_def split: if_splits)
  have f0: "0 \<le> \<lfloor>y\<rfloor>" using y0 by simp
  have f1: "\<lfloor>y\<rfloor> < int (length xs)" using y1 by (simp add: n_def floor_less_iff)
  then have "nat \<lfloor>y\<rfloor> < length xs" using f0 by linarith
  then have m: "xs ! nat \<lfloor>y\<rfloor> \<in> set xs" by (rule nth_mem)
  have "real_of_int \<lfloor>y\<rfloor> < real (length xs)" using f1 by linarith
  then have "Array_get xs (Num (real_of_int \<lfloor>y\<rfloor>)) = Some (xs ! nat \<lfloor>y\<rfloor>)"
    using f0 by simp
  then have "Array_get xs (Math_floor (num_mul (Num r) (Num (real (length xs))))) =
      Some (xs ! nat \<lfloor>y\<rfloor>)"
    using y by (simp add: n_def)
  with m show ?thesis by blast
qed

lemma poll_uninitialized:
  assumes "busLocations st rid = None" "rid \<notin> set Object_prototype_keys"
    "stops \<noteq> []" "length stops < 2 ^ 32"
    "0 \<le> rnd (draws st)" "rnd (draws st) \<le> 1 - pow2 (- 53)"
  shows "\<exists>s \<in> set stops.
           poll rnd stops rid st =
             (Inr (), st\<lparr>busLocations := (busLocations st)(rid \<mapsto> positionOf s),
                        draws := Suc (draws st)\<rparr>)"
proof -
  from random_index [OF assms(5,6,3,4)] obtain s where s: "s \<in> set stops"
    "Array_get stops (Math_floor (num_mul (Num (rnd (draws st))) (Num (real (length stops))))) = Some s"
    by blast
  have "poll rnd stops rid st =
             (Inr (), st\<lparr>busLocations := (busLocations st)(rid \<mapsto> positionOf s),
                        draws := Suc (draws st)\<rparr>)"
    using assms(1,2) s(2) by (simp add: poll_def Let_def)
  with s(1) show ?thesis by blast
qed

lemma poll_uninitialized_index:
  assumes "busLocations st rid = None" "rid \<notin> set Object_prototype_keys"
    "stops \<noteq> []" "length stops < 2 ^ 32"
    "0 \<le> rnd (draws st)" "rnd (draws st) \<le> 1 - pow2 (- 53)"
  shows "\<exists>s \<in> set stops.
           Array_get stops (Math_floor (num_mul (Num (rnd (draws st))) (Num (real (length stops)))))
             = Some s \<and>
           poll rnd stops rid st =
             (Inr (), st\<lparr>busLocations := (busLocations st)(rid \<mapsto> positionOf s),
                        draws := Suc (draws st)\<rparr>)"
proof -
  from random_index [OF assms(5,6,3,4)] obtain s where s: "s \<in> set stops"
    "Array_get stops (Math_floor (num_mul (Num (rnd (draws st))) (Num (real (length stops))))) = Some s"
    by blast
  have "poll rnd stops rid st =
             (Inr (), st\<lparr>busLocations := (busLocations st)(rid \<mapsto> positionOf s),
                        draws := Suc (draws st)\<rparr>)"
    using assms(1,2) s(2) by (simp add: poll_def Let_def)
  with s show ?thesis by blast
qed

lemma poll_tracking:
  assumes "busLocations st rid = Some cur"
  shows "poll rnd stops rid st =
           (Inr (), st\<lparr>busLocations := (busLocations st)
                         (rid \<mapsto> \<lparr>lat = num_add (lat cur) (jitter (rnd (draws st))),
                                  lon = num_add (lon cur) (jitter (rnd (Suc (draws st))))\<rparr>),
                      draws := Suc (Suc (draws st))\<rparr>)"
  using assms by (simp add: poll_def Let_def)

text \<open>
  With no stops, polling an uninitialised route raises once the draw is made.
\<close>

lemma poll_no_stops:
  "busLocations st rid = None \<Longrightarrow> rid \<notin> set Object_prototype_keys \<Longrightarrow>
   poll rnd [] rid st =
     (Inl (TypeError ''Cannot read properties of undefined''), st\<lparr>draws := Suc (draws st)\<rparr>)"
  by (simp add: poll_def Let_def Array_get_empty)

text \<open>
  For an id that names an inherited property no entry is made.
\<close>

lemma poll_inherited:
  "busLocations st rid = None \<Longrightarrow> rid \<in> set Object_prototype_keys \<Longrightarrow>
   poll rnd stops rid st = (Inr (), st\<lparr>draws := Suc (Suc (draws st))\<rparr>)"
  by (simp add: poll_def)

text \<open>
  The step is a number of absolute value at most \<open>0.0005 + 2\<^sup>-\<^sup>6\<^sup>0\<close>.
\<close>

lemma jitter_bound:
  assumes "0 \<le> r" "r \<le> 1"
  shows "\<exists>d. jitter r = Num d \<and> \<bar>d\<bar> \<le> 0.0005 + pow2 (- 60)"
proof -
  have c: "pow2 (- 1075) \<le> pow2 (- 53)" "1 \<le> pow2 1023" "pow2 (- 53) \<le> 1"
    by (simp_all add: pow2_def)
  have h: "\<bar>r - 1 / 2\<bar> \<le> 1 / 2" using assms by linarith
  then have "\<bar>r - 1 / 2\<bar> \<le> pow2 1023" using c(2) by linarith
  from fl_Num [OF this] obtain t where t: "fl (r - 1 / 2) = Num t"
    and et: "\<bar>t - (r - 1 / 2)\<bar> \<le> max (\<bar>r - 1 / 2\<bar> * pow2 (- 53)) (pow2 (- 1075))" by blast
  have "\<bar>r - 1 / 2\<bar> * pow2 (- 53) \<le> 1 * pow2 (- 53)"
    using h by (intro mult_right_mono) (simp_all add: pow2_pos less_imp_le)
  then have "max (\<bar>r - 1 / 2\<bar> * pow2 (- 53)) (pow2 (- 1075)) \<le> pow2 (- 53)"
    using c(1) by simp
  with et h have tb: "\<bar>t\<bar> \<le> 1 / 2 + pow2 (- 53)" by linarith
  define c0 :: real where "c0 = 1152921504606847 / 1152921504606846976"
  have l: "fl 0.001 = Num c0" unfolding c0_def by (rule lit_0_001)
  have c00: "0 \<le> c0" by (simp add: c0_def)
  have pb: "\<bar>t * c0\<bar> \<le> (1 / 2 + pow2 (- 53)) * c0"
    unfolding abs_mult using tb c00 by (intro mult_mono) simp_all
  have "(1 / 2 + pow2 (- 53)) * c0 \<le> pow2 1023" by (simp add: c0_def pow2_def)
  with pb have "\<bar>t * c0\<bar> \<le> pow2 1023" by linarith
  from fl_Num [OF this] obtain d where d: "fl (t * c0) = Num d"
    and ed: "\<bar>d - t * c0\<bar> \<le> max (\<bar>t * c0\<bar> * pow2 (- 53)) (pow2 (- 1075))" by blast
  have "\<bar>t * c0\<bar> * pow2 (- 53) \<le> ((1 / 2 + pow2 (- 53)) * c0) * pow2 (- 53)"
    using pb by (intro mult_right_mono) (simp_all add: pow2_pos less_imp_le)
  then have "max (\<bar>t * c0\<bar> * pow2 (- 53)) (pow2 (- 1075))
      \<le> ((1 / 2 + pow2 (- 53)) * c0) * pow2 (- 53) + pow2 (- 1075)"
    using pow2_pos [of "- 1075"] c00 pow2_pos [of "- 53"]
    by (intro max_le_add) (simp_all add: less_imp_le)
  with ed pb have "\<bar>d\<bar> \<le> (1 / 2 + pow2 (- 53)) * c0
      + ((1 / 2 + pow2 (- 53)) * c0) * pow2 (- 53) + pow2 (- 1075)" by linarith
  also have "\<dots> \<le> 0.0005 + pow2 (- 60)" by (simp add: c0_def pow2_def)
  finally have "\<bar>d\<bar> \<le> 0.0005 + pow2 (- 60)" .
  moreover have "jitter r = Num d" using t l d by simp
  ultimately show ?thesis by blast
qed

text \<open>
  Adding the step to a coordinate \<open>x\<close> moves it by at most \<open>0.0005\<close> and the rounding of
  the sum.
\<close>

lemma jitter_move:
  assumes "0 \<le> r" "r \<le> 1" "\<bar>x\<bar> \<le> pow2 1000"
  shows "\<exists>x'. num_add (Num x) (jitter r) = Num x' \<and>
           \<bar>x' - x\<bar> \<le> 0.0005 + \<bar>x\<bar> * pow2 (- 53) + pow2 (- 59)"
proof -
  from jitter_bound [OF assms(1,2)] obtain d where d: "jitter r = Num d"
    and db: "\<bar>d\<bar> \<le> 0.0005 + pow2 (- 60)" by blast
  have c: "pow2 1000 + (0.0005 + pow2 (- 60)) \<le> pow2 1023"
    "(0.0005 + pow2 (- 60)) + (0.0005 + pow2 (- 60)) * pow2 (- 53) + pow2 (- 1075)
       \<le> 0.0005 + pow2 (- 59)"
    by (simp_all add: pow2_def)
  have s: "\<bar>x + d\<bar> \<le> \<bar>x\<bar> + \<bar>d\<bar>" by (rule abs_triangle_ineq)
  then have "\<bar>x + d\<bar> \<le> pow2 1023" using assms(3) db c(1) by linarith
  from fl_Num [OF this] obtain x' where x': "fl (x + d) = Num x'"
    and e: "\<bar>x' - (x + d)\<bar> \<le> max (\<bar>x + d\<bar> * pow2 (- 53)) (pow2 (- 1075))" by blast
  have "\<bar>x + d\<bar> * pow2 (- 53) \<le> (\<bar>x\<bar> + (0.0005 + pow2 (- 60))) * pow2 (- 53)"
    using s db by (intro mult_right_mono) (simp_all add: pow2_pos less_imp_le)
  then have "max (\<bar>x + d\<bar> * pow2 (- 53)) (pow2 (- 1075))
      \<le> (\<bar>x\<bar> + (0.0005 + pow2 (- 60))) * pow2 (- 53) + pow2 (- 1075)"
    using pow2_pos [of "- 1075"] pow2_pos [of "- 53"] pow2_pos [of "- 60"]
    by (intro max_le_add mult_nonneg_nonneg add_nonneg_nonneg) (simp_all add: less_imp_le)
  with e have "\<bar>x' - x\<bar> \<le> \<bar>d\<bar> + (\<bar>x\<bar> + (0.0005 + pow2 (- 60))) * pow2 (- 53) + pow2 (- 1075)"
    by linarith
  also have "\<dots> = \<bar>d\<bar> + \<bar>x\<bar> * pow2 (- 53) + (0.0005 + pow2 (- 60)) * pow2 (- 53) + pow2 (- 1075)"
    by (simp add: algebra_simps)
  also have "\<dots> \<le> 0.0005 + \<bar>x\<bar> * pow2 (- 53) + pow2 (- 59)" using db c(2) by linarith
  finally have "\<bar>x' - x\<bar> \<le> 0.0005 + \<bar>x\<bar> * pow2 (- 53) + pow2 (- 59)" .
  moreover have "num_add (Num x) (jitter r) = Num x'" using d x' by simp
  ultimately show ?thesis by blast
qed

lemma pollAll_single:
  "poll rnd stops (route_id r) st = (Inr (), st') \<Longrightarrow>
   pollAll rnd [r] stops st = (Inr (busLocations st'), st')"
  by (simp add: pollAll_def)

text \<open>
  C6, as the code has it. Let every draw be a double in \<open>[0, 1)\<close>. For a route id that
  has no entry and names no inherited property, with at least one stop, a poll stores
  the exact coordinate of some stop of the collection for that id, which makes the route
  \<open>Tracking\<close>. For a route id with an entry, a poll replaces latitude and longitude by
  the double sums of the old values and the steps of the next two draws; each moves by
  at most \<open>0.0005\<close> and the rounding of the sum, \<open>2\<^sup>-\<^sup>5\<^sup>3\<close> times the old value and
  \<open>2\<^sup>-\<^sup>5\<^sup>9\<close>. The step itself returns nothing; a request for a catalog of that one
  route answers with the map that holds the new position.
\<close>

theorem poll_first_then_jitter:
  assumes rnd: "\<forall>n. 0 \<le> rnd n \<and> rnd n \<le> 1 - pow2 (- 53)"
  shows
   "(busLocations st0 (route_id r) = None \<and> route_id r \<notin> set Object_prototype_keys \<and>
     stops \<noteq> [] \<and> length stops < 2 ^ 32 \<longrightarrow>
       (\<exists>s \<in> set stops. \<exists>st'.
          st' = st0\<lparr>busLocations := (busLocations st0)(route_id r \<mapsto> positionOf s),
                    draws := Suc (draws st0)\<rparr> \<and>
          poll rnd stops (route_id r) st0 = (Inr (), st') \<and>
          pollAll rnd [r] stops st0 = (Inr (busLocations st'), st') \<and>
          routeState st0 (route_id r) = Uninitialized \<and>
          routeState st' (route_id r) = Tracking)) \<and>
    (busLocations st1 (route_id r) = Some \<lparr>lat = Num x, lon = Num y\<rparr> \<and>
     \<bar>x\<bar> \<le> pow2 1000 \<and> \<bar>y\<bar> \<le> pow2 1000 \<longrightarrow>
       (\<exists>x' y' st'.
          st' = st1\<lparr>busLocations := (busLocations st1)
                      (route_id r \<mapsto> \<lparr>lat = Num x', lon = Num y'\<rparr>),
                    draws := Suc (Suc (draws st1))\<rparr> \<and>
          poll rnd stops (route_id r) st1 = (Inr (), st') \<and>
          pollAll rnd [r] stops st1 = (Inr (busLocations st'), st') \<and>
          num_add (Num x) (jitter (rnd (draws st1))) = Num x' \<and>
          num_add (Num y) (jitter (rnd (Suc (draws st1)))) = Num y' \<and>
          \<bar>x' - x\<bar> \<le> 0.0005 + \<bar>x\<bar> * pow2 (- 53) + pow2 (- 59) \<and>
          \<bar>y' - y\<bar> \<le> 0.0005 + \<bar>y\<bar> * pow2 (- 53) + pow2 (- 59) \<and>
          routeState st1 (route_id r) = Tracking \<and>
          routeState st' (route_id r) = Tracking))"
proof (intro conjI impI)
  assume a: "busLocations st0 (route_id r) = None \<and> route_id r \<notin> set Object_prototype_keys \<and>
     stops \<noteq> [] \<and> length stops < 2 ^ 32"
  from rnd have d: "0 \<le> rnd (draws st0)" "rnd (draws st0) \<le> 1 - pow2 (- 53)" by simp_all
  have "\<exists>s \<in> set stops.
           poll rnd stops (route_id r) st0 =
             (Inr (), st0\<lparr>busLocations := (busLocations st0)(route_id r \<mapsto> positionOf s),
                        draws := Suc (draws st0)\<rparr>)"
    using a d by (intro poll_uninitialized) simp_all
  then obtain s where s: "s \<in> set stops"
      "poll rnd stops (route_id r) st0 =
         (Inr (), st0\<lparr>busLocations := (busLocations st0)(route_id r \<mapsto> positionOf s),
                    draws := Suc (draws st0)\<rparr>)" by (rule bexE)
  show "\<exists>s \<in> set stops. \<exists>st'.
          st' = st0\<lparr>busLocations := (busLocations st0)(route_id r \<mapsto> positionOf s),
                    draws := Suc (draws st0)\<rparr> \<and>
          poll rnd stops (route_id r) st0 = (Inr (), st') \<and>
          pollAll rnd [r] stops st0 = (Inr (busLocations st'), st') \<and>
          routeState st0 (route_id r) = Uninitialized \<and>
          routeState st' (route_id r) = Tracking"
    using s a pollAll_single [OF s(2)]
    by (intro bexI [of _ s]
          exI [of _ "st0\<lparr>busLocations := (busLocations st0)(route_id r \<mapsto> positionOf s),
                        draws := Suc (draws st0)\<rparr>"])
       (simp_all add: routeState_def)
next
  assume a: "busLocations st1 (route_id r) = Some \<lparr>lat = Num x, lon = Num y\<rparr> \<and>
     \<bar>x\<bar> \<le> pow2 1000 \<and> \<bar>y\<bar> \<le> pow2 1000"
  have u: "1 - pow2 (- 53) \<le> (1::real)" using pow2_pos [of "- 53"] by simp
  from rnd u have r1: "0 \<le> rnd (draws st1)" "rnd (draws st1) \<le> 1"
    by (simp, meson order_trans)
  from rnd u have r2: "0 \<le> rnd (Suc (draws st1))" "rnd (Suc (draws st1)) \<le> 1"
    by (simp, meson order_trans)
  from jitter_move [OF r1] a obtain x' where x': "num_add (Num x) (jitter (rnd (draws st1))) = Num x'"
      "\<bar>x' - x\<bar> \<le> 0.0005 + \<bar>x\<bar> * pow2 (- 53) + pow2 (- 59)" by blast
  from jitter_move [OF r2] a obtain y' where y': "num_add (Num y) (jitter (rnd (Suc (draws st1)))) = Num y'"
      "\<bar>y' - y\<bar> \<le> 0.0005 + \<bar>y\<bar> * pow2 (- 53) + pow2 (- 59)" by blast
  let ?st' = "st1\<lparr>busLocations := (busLocations st1)
                      (route_id r \<mapsto> \<lparr>lat = Num x', lon = Num y'\<rparr>),
                    draws := Suc (Suc (draws st1))\<rparr>"
  have p: "poll rnd stops (route_id r) st1 = (Inr (), ?st')"
    using poll_tracking [where rnd = rnd and st = st1 and stops = stops and rid = "route_id r"
        and cur = "\<lparr>lat = Num x, lon = Num y\<rparr>"] a x'(1) y'(1)
    by (simp only: Location.select_convs)
  show "\<exists>x' y' st'.
          st' = st1\<lparr>busLocations := (busLocations st1)
                      (route_id r \<mapsto> \<lparr>lat = Num x', lon = Num y'\<rparr>),
                    draws := Suc (Suc (draws st1))\<rparr> \<and>
          poll rnd stops (route_id r) st1 = (Inr (), st') \<and>
          pollAll rnd [r] stops st1 = (Inr (busLocations st'), st') \<and>
          num_add (Num x) (jitter (rnd (draws st1))) = Num x' \<and>
          num_add (Num y) (jitter (rnd (Suc (draws st1)))) = Num y' \<and>
          \<bar>x' - x\<bar> \<le> 0.0005 + \<bar>x\<bar> * pow2 (- 53) + pow2 (- 59) \<and>
          \<bar>y' - y\<bar> \<le> 0.0005 + \<bar>y\<bar> * pow2 (- 53) + pow2 (- 59) \<and>
          routeState st1 (route_id r) = Tracking \<and>
          routeState st' (route_id r) = Tracking"
    using p pollAll_single [OF p] x' y' a
    by (intro exI [of _ x'] exI [of _ y'] exI [of _ ?st']) (simp_all add: routeState_def)
qed

theorem poll_first_then_jitter_witness:
  "(\<forall>n. (0::real) \<le> (\<lambda>n. 1 / 4) n \<and> (\<lambda>n. 1 / 4 :: real) n \<le> 1 - pow2 (- 53)) \<and>
   busLocations (init_state 0) (route_id (hd mock_routes)) = None \<and>
   route_id (hd mock_routes) \<notin> set Object_prototype_keys \<and>
   mock_stops \<noteq> [] \<and> length mock_stops < 2 ^ 32 \<and>
   (\<exists>s \<in> set mock_stops. \<exists>st'.
      st' = (init_state 0)\<lparr>busLocations := (busLocations (init_state 0))
                (route_id (hd mock_routes) \<mapsto> positionOf s), draws := Suc (draws (init_state 0))\<rparr> \<and>
      poll (\<lambda>n. 1 / 4) mock_stops (route_id (hd mock_routes)) (init_state 0) = (Inr (), st') \<and>
      pollAll (\<lambda>n. 1 / 4) [hd mock_routes] mock_stops (init_state 0) = (Inr (busLocations st'), st') \<and>
      routeState (init_state 0) (route_id (hd mock_routes)) = Uninitialized \<and>
      routeState st' (route_id (hd mock_routes)) = Tracking) \<and>
   busLocations \<lparr>busLocations = [''419'' \<mapsto> \<lparr>lat = Num 1, lon = Num 2\<rparr>], draws = 1\<rparr>
      (route_id (hd mock_routes)) = Some \<lparr>lat = Num 1, lon = Num 2\<rparr> \<and>
   \<bar>1 :: real\<bar> \<le> pow2 1000 \<and> \<bar>2 :: real\<bar> \<le> pow2 1000 \<and>
   (\<exists>x' y' st'.
      st' = \<lparr>busLocations = [''419'' \<mapsto> \<lparr>lat = Num 1, lon = Num 2\<rparr>], draws = 1\<rparr>
              \<lparr>busLocations := [''419'' \<mapsto> \<lparr>lat = Num 1, lon = Num 2\<rparr>]
                  (route_id (hd mock_routes) \<mapsto> \<lparr>lat = Num x', lon = Num y'\<rparr>),
                draws := Suc (Suc 1)\<rparr> \<and>
      poll (\<lambda>n. 1 / 4) mock_stops (route_id (hd mock_routes))
        \<lparr>busLocations = [''419'' \<mapsto> \<lparr>lat = Num 1, lon = Num 2\<rparr>], draws = 1\<rparr> = (Inr (), st') \<and>
      pollAll (\<lambda>n. 1 / 4) [hd mock_routes] mock_stops
        \<lparr>busLocations = [''419'' \<mapsto> \<lparr>lat = Num 1, lon = Num 2\<rparr>], draws = 1\<rparr>
        = (Inr (busLocations st'), st') \<and>
      num_add (Num 1) (jitter (1 / 4)) = Num x' \<and>
      num_add (Num 2) (jitter (1 / 4)) = Num y' \<and>
      \<bar>x' - 1\<bar> \<le> 0.0005 + \<bar>1\<bar> * pow2 (- 53) + pow2 (- 59) \<and>
      \<bar>y' - 2\<bar> \<le> 0.0005 + \<bar>2\<bar> * pow2 (- 53) + pow2 (- 59))"
proof -
  let ?st1 = "\<lparr>busLocations = [''419'' \<mapsto> \<lparr>lat = Num 1, lon = Num 2\<rparr>], draws = 1\<rparr>"
  have r: "\<forall>n. (0::real) \<le> (\<lambda>n. 1 / 4) n \<and> (\<lambda>n. 1 / 4 :: real) n \<le> 1 - pow2 (- 53)"
    by (simp add: pow2_def)
  have a: "busLocations (init_state 0) (route_id (hd mock_routes)) = None"
    by (simp add: init_state_def)
  have k: "route_id (hd mock_routes) \<notin> set Object_prototype_keys"
    by (simp add: mock_routes_def Object_prototype_keys_def)
  have b: "mock_stops \<noteq> []" "length mock_stops < 2 ^ 32" by (simp_all add: mock_stops_def)
  have c: "busLocations ?st1 (route_id (hd mock_routes)) = Some \<lparr>lat = Num 1, lon = Num 2\<rparr>"
    by (simp add: mock_routes_def)
  have d: "\<bar>1 :: real\<bar> \<le> pow2 1000" "\<bar>2 :: real\<bar> \<le> pow2 1000" by (simp_all add: pow2_def)
  from poll_first_then_jitter [OF r, of "init_state 0" "hd mock_routes" mock_stops ?st1 1 2]
    a k b c d
  have "(\<exists>s \<in> set mock_stops. \<exists>st'.
      st' = (init_state 0)\<lparr>busLocations := (busLocations (init_state 0))
                (route_id (hd mock_routes) \<mapsto> positionOf s), draws := Suc (draws (init_state 0))\<rparr> \<and>
      poll (\<lambda>n. 1 / 4) mock_stops (route_id (hd mock_routes)) (init_state 0) = (Inr (), st') \<and>
      pollAll (\<lambda>n. 1 / 4) [hd mock_routes] mock_stops (init_state 0) = (Inr (busLocations st'), st') \<and>
      routeState (init_state 0) (route_id (hd mock_routes)) = Uninitialized \<and>
      routeState st' (route_id (hd mock_routes)) = Tracking) \<and>
   (\<exists>x' y' st'.
      st' = ?st1\<lparr>busLocations := (busLocations ?st1)
                  (route_id (hd mock_routes) \<mapsto> \<lparr>lat = Num x', lon = Num y'\<rparr>),
                draws := Suc (Suc (draws ?st1))\<rparr> \<and>
      poll (\<lambda>n. 1 / 4) mock_stops (route_id (hd mock_routes)) ?st1 = (Inr (), st') \<and>
      pollAll (\<lambda>n. 1 / 4) [hd mock_routes] mock_stops ?st1 = (Inr (busLocations st'), st') \<and>
      num_add (Num 1) (jitter (1 / 4)) = Num x' \<and>
      num_add (Num 2) (jitter (1 / 4)) = Num y' \<and>
      \<bar>x' - 1\<bar> \<le> 0.0005 + \<bar>1\<bar> * pow2 (- 53) + pow2 (- 59) \<and>
      \<bar>y' - 2\<bar> \<le> 0.0005 + \<bar>2\<bar> * pow2 (- 53) + pow2 (- 59) \<and>
      routeState ?st1 (route_id (hd mock_routes)) = Tracking \<and>
      routeState st' (route_id (hd mock_routes)) = Tracking)"
    by blast
  then show ?thesis using r a k b c d
    by (simp only: SimState.select_convs) blast
qed

text \<open>
  C6, as stated, fails. From latitude 2.50025 the draw 0 leads to 2.4997499999999997,
  which is more than 0.0005 away; and for the route id \<^verbatim>\<open>constructor\<close> the first poll
  makes no entry.
\<close>

theorem poll_jitter_exceeds_bound:
  "poll (\<lambda>n. 0) mock_stops ''419''
     \<lparr>busLocations = [''419'' \<mapsto> \<lparr>lat = fl 2.50025, lon = fl 2.50025\<rparr>], draws = 0\<rparr> =
     (Inr (),
      \<lparr>busLocations = [''419'' \<mapsto> \<lparr>lat = Num (2814468292129849 / 1125899906842624),
                                     lon = Num (2814468292129849 / 1125899906842624)\<rparr>],
        draws = 2\<rparr>) \<and>
   fl 2.50025 = Num (5630062484166541 / 2251799813685248) \<and>
   (0.0005 :: real) < \<bar>2814468292129849 / 1125899906842624 - 5630062484166541 / 2251799813685248\<bar> \<and>
   poll (\<lambda>n. 0) mock_stops ''constructor'' (init_state 0) =
     (Inr (), \<lparr>busLocations = Map.empty, draws = 2\<rparr>)"
proof -
  let ?st = "\<lparr>busLocations = [''419'' \<mapsto> \<lparr>lat = fl 2.50025, lon = fl 2.50025\<rparr>], draws = 0\<rparr>"
  have j: "num_add (fl 2.50025) (jitter 0) = Num (2814468292129849 / 1125899906842624)"
    by (simp only: lit_2_50025 lit_0_001 jit_centre jit_scale jit_sum)
  have "busLocations ?st ''419'' = Some \<lparr>lat = fl 2.50025, lon = fl 2.50025\<rparr>" by simp
  from poll_tracking [OF this, of "\<lambda>n. 0" mock_stops]
  have a: "poll (\<lambda>n. 0) mock_stops ''419'' ?st =
     (Inr (),
      \<lparr>busLocations = [''419'' \<mapsto> \<lparr>lat = Num (2814468292129849 / 1125899906842624),
                                     lon = Num (2814468292129849 / 1125899906842624)\<rparr>],
        draws = 2\<rparr>)"
    unfolding Location.select_convs j by simp
  have b: "(0.0005 :: real)
      < \<bar>2814468292129849 / 1125899906842624 - 5630062484166541 / 2251799813685248\<bar>"
    by simp
  have c: "poll (\<lambda>n. 0) mock_stops ''constructor'' (init_state 0) =
     (Inr (), \<lparr>busLocations = Map.empty, draws = 2\<rparr>)"
    by (simp add: poll_def init_state_def Object_prototype_keys_def)
  from a lit_2_50025 b c show ?thesis by (intro conjI)
qed

lemma poll_dom_subset:
  "dom (busLocations (snd (poll rnd stops rid st)))
     \<subseteq> dom (busLocations st) \<union> ({rid} - set Object_prototype_keys)"
  by (auto simp: poll_def Let_def split: option.splits if_splits)

lemma poll_dom_ok:
  "poll rnd stops rid st = (Inr u, st') \<Longrightarrow>
   dom (busLocations st') = dom (busLocations st) \<union> ({rid} - set Object_prototype_keys)"
  by (auto simp: poll_def Let_def split: option.splits if_splits)

lemma poll_succeeds:
  assumes "\<forall>n. 0 \<le> rnd n \<and> rnd n \<le> 1 - pow2 (- 53)" "stops \<noteq> []" "length stops < 2 ^ 32"
  shows "\<exists>st'. poll rnd stops rid st = (Inr (), st')"
proof (cases "busLocations st rid")
  case None
  show ?thesis
  proof (cases "rid \<in> set Object_prototype_keys")
    case True
    then show ?thesis using poll_inherited [OF None True] by simp
  next
    case False
    from assms(1) have r: "0 \<le> rnd (draws st)" "rnd (draws st) \<le> 1 - pow2 (- 53)" by simp_all
    have "\<exists>s \<in> set stops.
           poll rnd stops rid st =
             (Inr (), st\<lparr>busLocations := (busLocations st)(rid \<mapsto> positionOf s),
                        draws := Suc (draws st)\<rparr>)"
      using None False assms(2,3) r by (rule poll_uninitialized)
    then show ?thesis by blast
  qed
next
  case (Some cur)
  then show ?thesis using poll_tracking [where rnd = rnd and st = st and stops = stops, OF Some]
    by simp
qed

lemma forEach_poll_dom_subset:
  "dom (busLocations (snd (forEach_poll rnd stops rs st)))
     \<subseteq> dom (busLocations st) \<union> (route_id ` set rs - set Object_prototype_keys)"
proof (induction rs arbitrary: st)
  case Nil
  show ?case by simp
next
  case (Cons r rs)
  obtain res st1 where p: "poll rnd stops (route_id r) st = (res, st1)"
    by (cases "poll rnd stops (route_id r) st")
  have d1: "dom (busLocations st1)
      \<subseteq> dom (busLocations st) \<union> ({route_id r} - set Object_prototype_keys)"
    using poll_dom_subset [of rnd stops "route_id r" st] p by simp
  show ?case
  proof (cases res)
    case (Inl e)
    then show ?thesis using p d1 by auto
  next
    case (Inr u)
    then have "forEach_poll rnd stops (r # rs) st = forEach_poll rnd stops rs st1"
      using p by simp
    then show ?thesis using Cons.IH [of st1] d1 by auto
  qed
qed

lemma forEach_poll_dom_ok:
  "forEach_poll rnd stops rs st = (Inr u, st') \<Longrightarrow>
   dom (busLocations st') = dom (busLocations st) \<union> (route_id ` set rs - set Object_prototype_keys)"
proof (induction rs arbitrary: st)
  case Nil
  then show ?case by simp
next
  case (Cons r rs)
  obtain res st1 where p: "poll rnd stops (route_id r) st = (res, st1)"
    by (cases "poll rnd stops (route_id r) st")
  show ?case
  proof (cases res)
    case (Inl e)
    then show ?thesis using p Cons.prems by simp
  next
    case (Inr v)
    then have "forEach_poll rnd stops rs st1 = (Inr u, st')" using p Cons.prems by simp
    from Cons.IH [OF this] poll_dom_ok [of rnd stops "route_id r" st v st1] p Inr
    show ?thesis by auto
  qed
qed

lemma forEach_poll_succeeds:
  assumes "\<forall>n. 0 \<le> rnd n \<and> rnd n \<le> 1 - pow2 (- 53)" "stops \<noteq> []" "length stops < 2 ^ 32"
  shows "\<exists>st'. forEach_poll rnd stops rs st = (Inr (), st')"
proof (induction rs arbitrary: st)
  case Nil
  show ?case by simp
next
  case (Cons r rs)
  from poll_succeeds [OF assms, of "route_id r" st] obtain st1
    where "poll rnd stops (route_id r) st = (Inr (), st1)" by blast
  then show ?case using Cons.IH [of st1] by simp
qed

lemma pollAll_dom_subset:
  "dom (busLocations (snd (pollAll rnd routes stops st)))
     \<subseteq> dom (busLocations st) \<union> (route_id ` set routes - set Object_prototype_keys)"
proof -
  obtain res st1 where f: "forEach_poll rnd stops routes st = (res, st1)"
    by (cases "forEach_poll rnd stops routes st")
  have "snd (pollAll rnd routes stops st) = st1"
    using f by (cases res) (simp_all add: pollAll_def)
  then show ?thesis using forEach_poll_dom_subset [of rnd stops routes st] f by simp
qed

lemma pollAll_ok:
  assumes "pollAll rnd routes stops st = (Inr snap, st')"
  shows "snap = busLocations st' \<and>
         dom snap = dom (busLocations st) \<union> (route_id ` set routes - set Object_prototype_keys)"
proof -
  from assms obtain u where f: "forEach_poll rnd stops routes st = (Inr u, st')"
    and s: "snap = busLocations st'"
    by (auto simp: pollAll_def split: prod.splits sum.splits)
  from forEach_poll_dom_ok [OF f] s show ?thesis by simp
qed

lemma pollAll_succeeds:
  assumes "\<forall>n. 0 \<le> rnd n \<and> rnd n \<le> 1 - pow2 (- 53)" "stops \<noteq> []" "length stops < 2 ^ 32"
  shows "\<exists>snap st'. pollAll rnd routes stops st = (Inr snap, st')"
proof -
  from forEach_poll_succeeds [OF assms, of routes st] obtain st'
    where "forEach_poll rnd stops routes st = (Inr (), st')" by blast
  then show ?thesis by (simp add: pollAll_def)
qed

lemma after_polls_dom_subset:
  "dom (busLocations (after_polls rnd routes stops n0 k))
     \<subseteq> route_id ` set routes - set Object_prototype_keys"
proof (induction k)
  case 0
  show ?case by (simp add: init_state_def)
next
  case (Suc k)
  from pollAll_dom_subset [of rnd routes stops "after_polls rnd routes stops n0 k"] Suc
  show ?case by auto
qed

text \<open>
  A request on a state in which every route of the catalog has a position moves each of
  them, in catalog order, with two draws for each route.
\<close>

lemma forEach_poll_tracked:
  assumes "distinct (map route_id rs)"
      and "\<forall>r \<in> set rs. busLocations st (route_id r) = Some (pos (route_id r))"
  shows "\<exists>st'. forEach_poll rnd stops rs st = (Inr (), st') \<and>
           draws st' = draws st + 2 * length rs \<and>
           (\<forall>i < length rs.
              busLocations st' (route_id (rs ! i)) =
                Some \<lparr>lat = num_add (lat (pos (route_id (rs ! i)))) (jitter (rnd (draws st + 2 * i))),
                      lon = num_add (lon (pos (route_id (rs ! i))))
                              (jitter (rnd (Suc (draws st + 2 * i))))\<rparr>) \<and>
           (\<forall>k. k \<notin> route_id ` set rs \<longrightarrow> busLocations st' k = busLocations st k)"
  using assms
proof (induction rs arbitrary: st)
  case Nil
  show ?case by simp
next
  case (Cons r rs)
  let ?new = "\<lparr>lat = num_add (lat (pos (route_id r))) (jitter (rnd (draws st))),
               lon = num_add (lon (pos (route_id r))) (jitter (rnd (Suc (draws st))))\<rparr>"
  let ?st1 = "st\<lparr>busLocations := (busLocations st)(route_id r \<mapsto> ?new),
                 draws := Suc (Suc (draws st))\<rparr>"
  have cur: "busLocations st (route_id r) = Some (pos (route_id r))" using Cons.prems(2) by simp
  have p: "poll rnd stops (route_id r) st = (Inr (), ?st1)"
    by (rule poll_tracking [OF cur])
  have notin: "route_id r \<notin> route_id ` set rs" using Cons.prems(1) by simp
  have d: "distinct (map route_id rs)" using Cons.prems(1) by simp
  have ne: "route_id r' \<noteq> route_id r" if "r' \<in> set rs" for r'
    using that notin by (metis imageI)
  have t: "\<forall>r' \<in> set rs. busLocations ?st1 (route_id r') = Some (pos (route_id r'))"
    using Cons.prems(2) ne by simp
  from Cons.IH [OF d t] obtain st' where f: "forEach_poll rnd stops rs ?st1 = (Inr (), st')"
    and dr: "draws st' = draws ?st1 + 2 * length rs"
    and en: "\<forall>i < length rs.
              busLocations st' (route_id (rs ! i)) =
                Some \<lparr>lat = num_add (lat (pos (route_id (rs ! i))))
                              (jitter (rnd (draws ?st1 + 2 * i))),
                      lon = num_add (lon (pos (route_id (rs ! i))))
                              (jitter (rnd (Suc (draws ?st1 + 2 * i))))\<rparr>"
    and ot: "\<forall>k. k \<notin> route_id ` set rs \<longrightarrow> busLocations st' k = busLocations ?st1 k"
    by blast
  have r1: "forEach_poll rnd stops (r # rs) st = (Inr (), st')" using p f by simp
  have r2: "draws st' = draws st + 2 * length (r # rs)" using dr by simp
  have r3: "\<forall>i < length (r # rs).
              busLocations st' (route_id ((r # rs) ! i)) =
                Some \<lparr>lat = num_add (lat (pos (route_id ((r # rs) ! i))))
                              (jitter (rnd (draws st + 2 * i))),
                      lon = num_add (lon (pos (route_id ((r # rs) ! i))))
                              (jitter (rnd (Suc (draws st + 2 * i))))\<rparr>"
  proof (intro allI impI)
    fix i assume i: "i < length (r # rs)"
    show "busLocations st' (route_id ((r # rs) ! i)) =
                Some \<lparr>lat = num_add (lat (pos (route_id ((r # rs) ! i))))
                              (jitter (rnd (draws st + 2 * i))),
                      lon = num_add (lon (pos (route_id ((r # rs) ! i))))
                              (jitter (rnd (Suc (draws st + 2 * i))))\<rparr>"
    proof (cases i)
      case 0
      have "busLocations st' (route_id r) = busLocations ?st1 (route_id r)"
        using ot notin by blast
      then show ?thesis using 0 by simp
    next
      case (Suc j)
      then have j: "j < length rs" using i by simp
      have e: "draws st + 2 * Suc j = Suc (Suc (draws st + 2 * j))" by simp
      from en j have "busLocations st' (route_id (rs ! j)) =
                Some \<lparr>lat = num_add (lat (pos (route_id (rs ! j))))
                              (jitter (rnd (draws ?st1 + 2 * j))),
                      lon = num_add (lon (pos (route_id (rs ! j))))
                              (jitter (rnd (Suc (draws ?st1 + 2 * j))))\<rparr>" by blast
      then show ?thesis unfolding Suc e by simp
    qed
  qed
  have r4: "\<forall>k. k \<notin> route_id ` set (r # rs) \<longrightarrow> busLocations st' k = busLocations st k"
    using ot by auto
  from r1 r2 r3 r4 show ?case by blast
qed

text \<open>
  A request on a state in which no route of the catalog has a position gives each of
  them the position of the stop that its one draw selects.
\<close>

lemma forEach_poll_first:
  assumes "distinct (map route_id rs)"
      and "\<forall>r \<in> set rs. busLocations st (route_id r) = None \<and>
             route_id r \<notin> set Object_prototype_keys"
      and rnd: "\<forall>n. 0 \<le> rnd n \<and> rnd n \<le> 1 - pow2 (- 53)"
      and stops: "stops \<noteq> []" "length stops < 2 ^ 32"
  shows "\<exists>st'. forEach_poll rnd stops rs st = (Inr (), st') \<and>
           draws st' = draws st + length rs \<and>
           (\<forall>i < length rs. \<exists>s \<in> set stops.
              Array_get stops
                (Math_floor (num_mul (Num (rnd (draws st + i))) (Num (real (length stops))))) = Some s \<and>
              busLocations st' (route_id (rs ! i)) = Some (positionOf s)) \<and>
           (\<forall>k. k \<notin> route_id ` set rs \<longrightarrow> busLocations st' k = busLocations st k)"
  using assms(1,2)
proof (induction rs arbitrary: st)
  case Nil
  show ?case by simp
next
  case (Cons r rs)
  have n: "busLocations st (route_id r) = None" "route_id r \<notin> set Object_prototype_keys"
    using Cons.prems(2) by simp_all
  from rnd have rr: "0 \<le> rnd (draws st)" "rnd (draws st) \<le> 1 - pow2 (- 53)" by simp_all
  from poll_uninitialized_index [where rnd = rnd and st = st and rid = "route_id r" and stops = stops]
    n stops rr
  obtain s where s: "s \<in> set stops"
    and ix: "Array_get stops
               (Math_floor (num_mul (Num (rnd (draws st))) (Num (real (length stops))))) = Some s"
    and p: "poll rnd stops (route_id r) st =
             (Inr (), st\<lparr>busLocations := (busLocations st)(route_id r \<mapsto> positionOf s),
                        draws := Suc (draws st)\<rparr>)"
    by blast
  let ?st1 = "st\<lparr>busLocations := (busLocations st)(route_id r \<mapsto> positionOf s),
                 draws := Suc (draws st)\<rparr>"
  have notin: "route_id r \<notin> route_id ` set rs" using Cons.prems(1) by simp
  have d: "distinct (map route_id rs)" using Cons.prems(1) by simp
  have ne: "route_id r' \<noteq> route_id r" if "r' \<in> set rs" for r'
    using that notin by (metis imageI)
  have t: "\<forall>r' \<in> set rs. busLocations ?st1 (route_id r') = None \<and>
             route_id r' \<notin> set Object_prototype_keys"
    using Cons.prems(2) ne by simp
  from Cons.IH [OF d t] obtain st' where f: "forEach_poll rnd stops rs ?st1 = (Inr (), st')"
    and dr: "draws st' = draws ?st1 + length rs"
    and en: "\<forall>i < length rs. \<exists>s \<in> set stops.
              Array_get stops
                (Math_floor (num_mul (Num (rnd (draws ?st1 + i))) (Num (real (length stops))))) = Some s \<and>
              busLocations st' (route_id (rs ! i)) = Some (positionOf s)"
    and ot: "\<forall>k. k \<notin> route_id ` set rs \<longrightarrow> busLocations st' k = busLocations ?st1 k"
    by blast
  have r1: "forEach_poll rnd stops (r # rs) st = (Inr (), st')" using p f by simp
  have r2: "draws st' = draws st + length (r # rs)" using dr by simp
  have r3: "\<forall>i < length (r # rs). \<exists>s \<in> set stops.
              Array_get stops
                (Math_floor (num_mul (Num (rnd (draws st + i))) (Num (real (length stops))))) = Some s \<and>
              busLocations st' (route_id ((r # rs) ! i)) = Some (positionOf s)"
  proof (intro allI impI)
    fix i assume i: "i < length (r # rs)"
    show "\<exists>s \<in> set stops.
              Array_get stops
                (Math_floor (num_mul (Num (rnd (draws st + i))) (Num (real (length stops))))) = Some s \<and>
              busLocations st' (route_id ((r # rs) ! i)) = Some (positionOf s)"
    proof (cases i)
      case 0
      have "busLocations st' (route_id r) = busLocations ?st1 (route_id r)"
        using ot notin by blast
      then show ?thesis using 0 s ix by auto
    next
      case (Suc j)
      then have j: "j < length rs" using i by simp
      have e: "draws st + Suc j = Suc (draws st + j)" by simp
      from en j have "\<exists>s \<in> set stops.
              Array_get stops
                (Math_floor (num_mul (Num (rnd (draws ?st1 + j))) (Num (real (length stops))))) = Some s \<and>
              busLocations st' (route_id (rs ! j)) = Some (positionOf s)" by blast
      then show ?thesis unfolding Suc e by simp
    qed
  qed
  have r4: "\<forall>k. k \<notin> route_id ` set (r # rs) \<longrightarrow> busLocations st' k = busLocations st k"
    using ot by auto
  from r1 r2 r3 r4 show ?case by blast
qed

lemma fl_half: "fl (1 / 2) = Num (1 / 2)"
  by (rule fl_eval [where e = "- 1" and k = "- 53" and m = 4503599627370496, THEN trans])
     (simp_all add: pow2_def rne_def Let_def)

text \<open>
  C7, as the code has it. After any number of requests the keys of the location map are
  catalog route ids that name no inherited property, one entry for each key. A request
  that answers returns the whole map of the state it leaves, and its keys are exactly
  those ids. With draws that are doubles in \<open>[0, 1)\<close> and at least one stop, every
  request answers. Every route is polled: when the catalog ids are distinct, a request
  on a state where every route has a position moves each position by the steps of its
  two draws, and a request on a state where no route has one gives each route the
  position of the stop its draw selects.
\<close>

theorem pollAll_snapshot_keys:
  "dom (busLocations (after_polls rnd routes stops n0 k))
     \<subseteq> route_id ` set routes - set Object_prototype_keys \<and>
   (pollAll rnd routes stops (after_polls rnd routes stops n0 k) = (Inr snap, st') \<longrightarrow>
      st' = after_polls rnd routes stops n0 (Suc k) \<and> snap = busLocations st' \<and>
      dom snap = route_id ` set routes - set Object_prototype_keys) \<and>
   ((\<forall>n. 0 \<le> rnd n \<and> rnd n \<le> 1 - pow2 (- 53)) \<and> stops \<noteq> [] \<and> length stops < 2 ^ 32 \<longrightarrow>
      (\<exists>m. pollAll rnd routes stops (after_polls rnd routes stops n0 k)
             = (Inr m, after_polls rnd routes stops n0 (Suc k)))) \<and>
   (distinct (map route_id routes) \<and>
    (\<forall>r \<in> set routes. busLocations st (route_id r) = Some (pos (route_id r))) \<longrightarrow>
      (\<exists>st2. pollAll rnd routes stops st = (Inr (busLocations st2), st2) \<and>
         draws st2 = draws st + 2 * length routes \<and>
         (\<forall>i < length routes.
            busLocations st2 (route_id (routes ! i)) =
              Some \<lparr>lat = num_add (lat (pos (route_id (routes ! i))))
                            (jitter (rnd (draws st + 2 * i))),
                    lon = num_add (lon (pos (route_id (routes ! i))))
                            (jitter (rnd (Suc (draws st + 2 * i))))\<rparr>))) \<and>
   (distinct (map route_id routes) \<and>
    (\<forall>r \<in> set routes. busLocations st0 (route_id r) = None \<and>
        route_id r \<notin> set Object_prototype_keys) \<and>
    (\<forall>n. 0 \<le> rnd n \<and> rnd n \<le> 1 - pow2 (- 53)) \<and> stops \<noteq> [] \<and> length stops < 2 ^ 32 \<longrightarrow>
      (\<exists>st2. pollAll rnd routes stops st0 = (Inr (busLocations st2), st2) \<and>
         draws st2 = draws st0 + length routes \<and>
         (\<forall>i < length routes. \<exists>s \<in> set stops.
            Array_get stops
              (Math_floor (num_mul (Num (rnd (draws st0 + i))) (Num (real (length stops))))) = Some s \<and>
            busLocations st2 (route_id (routes ! i)) = Some (positionOf s))))"
proof (intro conjI impI)
  show "dom (busLocations (after_polls rnd routes stops n0 k))
      \<subseteq> route_id ` set routes - set Object_prototype_keys"
    by (rule after_polls_dom_subset)
next
  assume a: "pollAll rnd routes stops (after_polls rnd routes stops n0 k) = (Inr snap, st')"
  then show "st' = after_polls rnd routes stops n0 (Suc k)" by simp
  from pollAll_ok [OF a] show "snap = busLocations st'" by (rule conjunct1)
  have "dom snap = dom (busLocations (after_polls rnd routes stops n0 k))
      \<union> (route_id ` set routes - set Object_prototype_keys)"
    using pollAll_ok [OF a] by (rule conjunct2)
  then show "dom snap = route_id ` set routes - set Object_prototype_keys"
    using after_polls_dom_subset [of rnd routes stops n0 k] by blast
next
  assume "(\<forall>n. 0 \<le> rnd n \<and> rnd n \<le> 1 - pow2 (- 53)) \<and> stops \<noteq> [] \<and> length stops < 2 ^ 32"
  then have "\<exists>snap st'. pollAll rnd routes stops (after_polls rnd routes stops n0 k) = (Inr snap, st')"
    using pollAll_succeeds [of rnd stops routes "after_polls rnd routes stops n0 k"] by blast
  then show "\<exists>m. pollAll rnd routes stops (after_polls rnd routes stops n0 k)
             = (Inr m, after_polls rnd routes stops n0 (Suc k))" by auto
next
  assume a: "distinct (map route_id routes) \<and>
    (\<forall>r \<in> set routes. busLocations st (route_id r) = Some (pos (route_id r)))"
  from forEach_poll_tracked [where rnd = rnd and stops = stops and pos = pos and st = st
      and rs = routes] a
  obtain st2 where f: "forEach_poll rnd stops routes st = (Inr (), st2)"
    and r: "draws st2 = draws st + 2 * length routes"
      "\<forall>i < length routes.
            busLocations st2 (route_id (routes ! i)) =
              Some \<lparr>lat = num_add (lat (pos (route_id (routes ! i))))
                            (jitter (rnd (draws st + 2 * i))),
                    lon = num_add (lon (pos (route_id (routes ! i))))
                            (jitter (rnd (Suc (draws st + 2 * i))))\<rparr>"
    by blast
  have "pollAll rnd routes stops st = (Inr (busLocations st2), st2)"
    using f by (simp add: pollAll_def)
  with r show "\<exists>st2. pollAll rnd routes stops st = (Inr (busLocations st2), st2) \<and>
         draws st2 = draws st + 2 * length routes \<and>
         (\<forall>i < length routes.
            busLocations st2 (route_id (routes ! i)) =
              Some \<lparr>lat = num_add (lat (pos (route_id (routes ! i))))
                            (jitter (rnd (draws st + 2 * i))),
                    lon = num_add (lon (pos (route_id (routes ! i))))
                            (jitter (rnd (Suc (draws st + 2 * i))))\<rparr>)"
    by blast
next
  assume a: "distinct (map route_id routes) \<and>
    (\<forall>r \<in> set routes. busLocations st0 (route_id r) = None \<and>
        route_id r \<notin> set Object_prototype_keys) \<and>
    (\<forall>n. 0 \<le> rnd n \<and> rnd n \<le> 1 - pow2 (- 53)) \<and> stops \<noteq> [] \<and> length stops < 2 ^ 32"
  from forEach_poll_first [where rnd = rnd and stops = stops and st = st0 and rs = routes] a
  obtain st2 where f: "forEach_poll rnd stops routes st0 = (Inr (), st2)"
    and r: "draws st2 = draws st0 + length routes"
      "\<forall>i < length routes. \<exists>s \<in> set stops.
            Array_get stops
              (Math_floor (num_mul (Num (rnd (draws st0 + i))) (Num (real (length stops))))) = Some s \<and>
            busLocations st2 (route_id (routes ! i)) = Some (positionOf s)"
    by blast
  have "pollAll rnd routes stops st0 = (Inr (busLocations st2), st2)"
    using f by (simp add: pollAll_def)
  with r show "\<exists>st2. pollAll rnd routes stops st0 = (Inr (busLocations st2), st2) \<and>
         draws st2 = draws st0 + length routes \<and>
         (\<forall>i < length routes. \<exists>s \<in> set stops.
            Array_get stops
              (Math_floor (num_mul (Num (rnd (draws st0 + i))) (Num (real (length stops))))) = Some s \<and>
            busLocations st2 (route_id (routes ! i)) = Some (positionOf s))"
    by blast
qed

theorem pollAll_snapshot_keys_witness:
  "dom (busLocations (after_polls (\<lambda>n. 1 / 4) mock_routes mock_stops 0 0))
     \<subseteq> route_id ` set mock_routes - set Object_prototype_keys \<and>
   pollAll (\<lambda>n. 1 / 4) mock_routes mock_stops
       (after_polls (\<lambda>n. 1 / 4) mock_routes mock_stops 0 0) =
     (Inr [''419'' \<mapsto> \<lparr>lat = fl (- 1.952559), lon = fl 30.120783\<rparr>,
           ''101'' \<mapsto> \<lparr>lat = fl (- 1.952559), lon = fl 30.120783\<rparr>],
      \<lparr>busLocations = [''419'' \<mapsto> \<lparr>lat = fl (- 1.952559), lon = fl 30.120783\<rparr>,
                        ''101'' \<mapsto> \<lparr>lat = fl (- 1.952559), lon = fl 30.120783\<rparr>],
        draws = 2\<rparr>) \<and>
   dom [''419'' \<mapsto> \<lparr>lat = fl (- 1.952559), lon = fl 30.120783\<rparr>,
        ''101'' \<mapsto> \<lparr>lat = fl (- 1.952559), lon = fl 30.120783\<rparr>]
     = route_id ` set mock_routes - set Object_prototype_keys \<and>
   (\<forall>n. (0::real) \<le> (\<lambda>n. 1 / 4) n \<and> (\<lambda>n. 1 / 4 :: real) n \<le> 1 - pow2 (- 53)) \<and>
   mock_stops \<noteq> [] \<and> length mock_stops < 2 ^ 32 \<and> distinct (map route_id mock_routes) \<and>
   (\<exists>st2.
      pollAll (\<lambda>n. 1 / 4) mock_routes mock_stops
        \<lparr>busLocations = [''419'' \<mapsto> \<lparr>lat = fl (- 1.952559), lon = fl 30.120783\<rparr>,
                          ''101'' \<mapsto> \<lparr>lat = fl (- 1.952559), lon = fl 30.120783\<rparr>],
          draws = 2\<rparr> = (Inr (busLocations st2), st2) \<and>
      draws st2 = 6 \<and>
      busLocations st2 ''419'' =
        Some \<lparr>lat = num_add (fl (- 1.952559)) (jitter (1 / 4)),
              lon = num_add (fl 30.120783) (jitter (1 / 4))\<rparr> \<and>
      busLocations st2 ''101'' =
        Some \<lparr>lat = num_add (fl (- 1.952559)) (jitter (1 / 4)),
              lon = num_add (fl 30.120783) (jitter (1 / 4))\<rparr>)"
proof -
  let ?R = "\<lambda>n::nat. 1 / 4 :: real"
  let ?P = "\<lparr>lat = fl (- 1.952559), lon = fl 30.120783\<rparr>"
  let ?snap = "[''419'' \<mapsto> ?P, ''101'' \<mapsto> ?P]"
  let ?st1 = "\<lparr>busLocations = ?snap, draws = 2\<rparr>"
  have r: "\<forall>n. (0::real) \<le> ?R n \<and> ?R n \<le> 1 - pow2 (- 53)" by (simp add: pow2_def)
  have b: "mock_stops \<noteq> []" "length mock_stops < 2 ^ 32" by (simp_all add: mock_stops_def)
  have di: "distinct (map route_id mock_routes)" by (simp add: mock_routes_def)
  have p: "pollAll ?R mock_routes mock_stops (after_polls ?R mock_routes mock_stops 0 0) =
     (Inr ?snap, ?st1)"
    by (simp add: pollAll_def poll_def init_state_def mock_routes_def mock_stops_def
          Object_prototype_keys_def fl_half Let_def)
  have tr: "\<forall>r \<in> set mock_routes. busLocations ?st1 (route_id r) = Some ((\<lambda>k. ?P) (route_id r))"
    by (simp add: mock_routes_def)
  note t = pollAll_snapshot_keys [of ?R mock_routes mock_stops 0 0 ?snap ?st1 ?st1 "\<lambda>k. ?P"
      "init_state 0"]
  from t have t1: "dom (busLocations (after_polls ?R mock_routes mock_stops 0 0))
     \<subseteq> route_id ` set mock_routes - set Object_prototype_keys" by (rule conjunct1)
  from t p have t2: "dom ?snap = route_id ` set mock_routes - set Object_prototype_keys" by blast
  from t di tr obtain st2 where s: "pollAll ?R mock_routes mock_stops ?st1 = (Inr (busLocations st2), st2)"
    and dr: "draws st2 = draws ?st1 + 2 * length mock_routes"
    and en: "\<forall>i < length mock_routes.
            busLocations st2 (route_id (mock_routes ! i)) =
              Some \<lparr>lat = num_add (lat ?P) (jitter (?R (draws ?st1 + 2 * i))),
                    lon = num_add (lon ?P) (jitter (?R (Suc (draws ?st1 + 2 * i))))\<rparr>"
    by blast
  have d6: "draws st2 = 6" using dr by (simp add: mock_routes_def)
  have "0 < length mock_routes" "1 < length mock_routes" by (simp_all add: mock_routes_def)
  with en have e0: "busLocations st2 (route_id (mock_routes ! 0)) =
              Some \<lparr>lat = num_add (lat ?P) (jitter (1 / 4)), lon = num_add (lon ?P) (jitter (1 / 4))\<rparr>"
    and e1: "busLocations st2 (route_id (mock_routes ! 1)) =
              Some \<lparr>lat = num_add (lat ?P) (jitter (1 / 4)), lon = num_add (lon ?P) (jitter (1 / 4))\<rparr>"
    by blast+
  have i0: "route_id (mock_routes ! 0) = ''419''" "route_id (mock_routes ! 1) = ''101''"
    by (simp_all add: mock_routes_def)
  have f0: "busLocations st2 ''419'' =
        Some \<lparr>lat = num_add (fl (- 1.952559)) (jitter (1 / 4)),
              lon = num_add (fl 30.120783) (jitter (1 / 4))\<rparr>"
    using e0 unfolding i0 by (simp only: Location.select_convs)
  have f1: "busLocations st2 ''101'' =
        Some \<lparr>lat = num_add (fl (- 1.952559)) (jitter (1 / 4)),
              lon = num_add (fl 30.120783) (jitter (1 / 4))\<rparr>"
    using e1 unfolding i0 by (simp only: Location.select_convs)
  from s d6 f0 f1 have ex: "\<exists>st2.
      pollAll ?R mock_routes mock_stops ?st1 = (Inr (busLocations st2), st2) \<and>
      draws st2 = 6 \<and>
      busLocations st2 ''419'' =
        Some \<lparr>lat = num_add (fl (- 1.952559)) (jitter (1 / 4)),
              lon = num_add (fl 30.120783) (jitter (1 / 4))\<rparr> \<and>
      busLocations st2 ''101'' =
        Some \<lparr>lat = num_add (fl (- 1.952559)) (jitter (1 / 4)),
              lon = num_add (fl 30.120783) (jitter (1 / 4))\<rparr>" by blast
  show ?thesis by (intro conjI t1 p t2 b di ex) (simp add: pow2_def)
qed

text \<open>
  C7, as stated, fails: with a catalog whose one route has the id \<^verbatim>\<open>constructor\<close>, the
  request answers with an empty map, and the key set is not the set of catalog ids.
\<close>

theorem pollAll_inherited_id_has_no_key:
  "pollAll (\<lambda>n. 0)
     [\<lparr>route_id = ''constructor'', route_short_name = ''c'',
       route_long_name = ''Constructor line'', route_color = ''000000''\<rparr>]
     mock_stops (init_state 0) = (Inr Map.empty, \<lparr>busLocations = Map.empty, draws = 2\<rparr>) \<and>
   dom (Map.empty :: string \<rightharpoonup> Location) \<noteq>
     route_id ` set [\<lparr>route_id = ''constructor'', route_short_name = ''c'',
                      route_long_name = ''Constructor line'', route_color = ''000000''\<rparr>]"
  by (simp add: pollAll_def poll_def init_state_def Object_prototype_keys_def)

section \<open>Properties of the report log\<close>

lemma filter_recent_zip:
  "filter_recent clock k reports =
     map fst (filter (\<lambda>(r, i). clock i - timestamp r < 3600000)
                (zip reports [k ..< k + length reports]))"
proof (induction reports arbitrary: k)
  case Nil
  show ?case by simp
next
  case (Cons r rs)
  have u: "[k ..< k + length (r # rs)] = k # [Suc k ..< Suc k + length rs]"
    by (simp add: upt_rec)
  show ?case unfolding u using Cons.IH [of "Suc k"] by simp
qed

lemma filter_recent_constant_clock:
  "\<forall>i < length reports. clock (k + i) = now \<Longrightarrow>
   filter_recent clock k reports = filter (\<lambda>r. now - timestamp r < 3600000) reports"
proof (induction reports arbitrary: k)
  case Nil
  show ?case by simp
next
  case (Cons r rs)
  have h: "clock k = now" using Cons.prems by force
  have "\<forall>i < length rs. clock (Suc k + i) = now"
  proof (intro allI impI)
    fix i assume "i < length rs"
    then have "Suc i < length (r # rs)" by simp
    with Cons.prems have "clock (k + Suc i) = now" by blast
    then show "clock (Suc k + i) = now" by simp
  qed
  from Cons.IH [OF this] h show ?case by simp
qed

text \<open>
  C8, as the code has it. The answer holds, in stored order, the reports for which the
  clock, read when that report is examined, is less than an hour past its time stamp,
  and the store is unchanged. When the clock reads \<open>now\<close> at every report examined, these
  are the stored reports with \<open>now - timestamp < 3600000\<close>: a report stamped
  \<open>now - 3600001\<close> is left out and one stamped \<open>now - 3599999\<close> is included.
\<close>

theorem recentReports_window:
  "recentReports clock reports =
     (map fst (filter (\<lambda>(r, i). clock i - timestamp r < 3600000)
                 (zip reports [0 ..< length reports])), reports) \<and>
   ((\<forall>i < length reports. clock i = now) \<longrightarrow>
      recentReports clock reports =
        (filter (\<lambda>r. now - timestamp r < 3600000) reports, reports) \<and>
      (\<forall>r \<in> set reports.
         (timestamp r = now - 3600001 \<longrightarrow> r \<notin> set (fst (recentReports clock reports))) \<and>
         (timestamp r = now - 3599999 \<longrightarrow> r \<in> set (fst (recentReports clock reports)))))"
proof -
  have a: "recentReports clock reports =
     (map fst (filter (\<lambda>(r, i). clock i - timestamp r < 3600000)
                 (zip reports [0 ..< length reports])), reports)"
    using filter_recent_zip [of clock 0 reports] by (simp add: recentReports_def)
  have b: "(\<forall>i < length reports. clock i = now) \<longrightarrow>
      recentReports clock reports =
        (filter (\<lambda>r. now - timestamp r < 3600000) reports, reports) \<and>
      (\<forall>r \<in> set reports.
         (timestamp r = now - 3600001 \<longrightarrow> r \<notin> set (fst (recentReports clock reports))) \<and>
         (timestamp r = now - 3599999 \<longrightarrow> r \<in> set (fst (recentReports clock reports))))"
  proof
    assume c: "\<forall>i < length reports. clock i = now"
    have "filter_recent clock 0 reports = filter (\<lambda>r. now - timestamp r < 3600000) reports"
      using c by (intro filter_recent_constant_clock) simp
    then have e: "recentReports clock reports =
           (filter (\<lambda>r. now - timestamp r < 3600000) reports, reports)"
      by (simp add: recentReports_def)
    show "recentReports clock reports =
        (filter (\<lambda>r. now - timestamp r < 3600000) reports, reports) \<and>
      (\<forall>r \<in> set reports.
         (timestamp r = now - 3600001 \<longrightarrow> r \<notin> set (fst (recentReports clock reports))) \<and>
         (timestamp r = now - 3599999 \<longrightarrow> r \<in> set (fst (recentReports clock reports))))"
      unfolding e by auto
  qed
  from a b show ?thesis ..
qed

theorem recentReports_window_witness:
  "(\<forall>i. (\<lambda>k. 7200000 :: int) i = 7200000) \<and>
   recentReports (\<lambda>k. 7200000)
      [\<lparr>id_rep = ''a'', type_rep = ''TRAFFIC'', location_rep = \<lparr>lat = fl (- 1.9534), lon = fl 30.0616\<rparr>,
         description = ''old'', timestamp = 7200000 - 3600001\<rparr>,
       \<lparr>id_rep = ''b'', type_rep = ''ACCIDENT'', location_rep = \<lparr>lat = fl (- 1.9534), lon = fl 30.0616\<rparr>,
         description = ''new'', timestamp = 7200000 - 3599999\<rparr>] =
     ([\<lparr>id_rep = ''b'', type_rep = ''ACCIDENT'', location_rep = \<lparr>lat = fl (- 1.9534), lon = fl 30.0616\<rparr>,
         description = ''new'', timestamp = 7200000 - 3599999\<rparr>],
      [\<lparr>id_rep = ''a'', type_rep = ''TRAFFIC'', location_rep = \<lparr>lat = fl (- 1.9534), lon = fl 30.0616\<rparr>,
         description = ''old'', timestamp = 7200000 - 3600001\<rparr>,
       \<lparr>id_rep = ''b'', type_rep = ''ACCIDENT'', location_rep = \<lparr>lat = fl (- 1.9534), lon = fl 30.0616\<rparr>,
         description = ''new'', timestamp = 7200000 - 3599999\<rparr>])"
proof -
  let ?rs = "[\<lparr>id_rep = ''a'', type_rep = ''TRAFFIC'', location_rep = \<lparr>lat = fl (- 1.9534), lon = fl 30.0616\<rparr>,
         description = ''old'', timestamp = 7200000 - 3600001\<rparr>,
       \<lparr>id_rep = ''b'', type_rep = ''ACCIDENT'', location_rep = \<lparr>lat = fl (- 1.9534), lon = fl 30.0616\<rparr>,
         description = ''new'', timestamp = 7200000 - 3599999\<rparr>]"
  have h: "\<forall>i < length ?rs. (\<lambda>k. 7200000 :: int) i = 7200000" by simp
  from recentReports_window [of "\<lambda>k. 7200000" ?rs 7200000] h
  have "recentReports (\<lambda>k. 7200000) ?rs =
        (filter (\<lambda>r. 7200000 - timestamp r < 3600000) ?rs, ?rs)" by blast
  then show ?thesis by simp
qed

text \<open>
  C8, as stated, fails: with a clock that advances by one millisecond between the two
  reads, of two stored reports with the same time stamp the first is returned and the
  second is not, which no single value of \<open>now\<close> explains.
\<close>

theorem recentReports_clock_advances:
  "fst (recentReports (\<lambda>k. 3599999 + int k)
     [\<lparr>id_rep = ''a'', type_rep = ''TRAFFIC'', location_rep = \<lparr>lat = Num 0, lon = Num 0\<rparr>,
        description = ''first'', timestamp = 0\<rparr>,
      \<lparr>id_rep = ''b'', type_rep = ''TRAFFIC'', location_rep = \<lparr>lat = Num 0, lon = Num 0\<rparr>,
        description = ''second'', timestamp = 0\<rparr>]) =
     [\<lparr>id_rep = ''a'', type_rep = ''TRAFFIC'', location_rep = \<lparr>lat = Num 0, lon = Num 0\<rparr>,
        description = ''first'', timestamp = 0\<rparr>]"
  by (simp add: recentReports_def)

end
